theory Spec2Isabelle
  imports Complex_Main
begin

section \<open>Data model of the arbitrage executor\<close>

text \<open>
  The development embeds \<^verbatim>\<open>hummingbot/smart_components/arbitrage_executor/arbitrage_executor.py\<close>.
  A finite Python \<^verbatim>\<open>Decimal\<close> is a rational number, and an operation on two of them
  returns the exact result rounded by the decimal context (section on decimal arithmetic
  below); the special values NaN and Infinity are not represented. Python integers are
  \<^typ>\<open>int\<close>. Every raise of the source is a value of the type \<open>exn\<close> of exceptions
  of class \<^verbatim>\<open>Exception\<close>.
\<close>

datatype exn =
  KeyError | AttributeError | TypeError | ValueError
  | DivisionByZero | InvalidOperation | Overflow
  | CollaboratorError string

datatype ArbitrageExecutorStatus = NOT_STARTED | ACTIVE_ARBITRAGE | COMPLETED | FAILED

datatype TradeType = BUY | SELL

datatype OrderType = MARKET | LIMIT | LIMIT_MAKER

record ExchangePair =
  exchange :: string
  trading_pair :: string

text \<open>
  Modelled from the spec: the order snapshot held by a tracked order (the class is
  imported, not defined, by the source file). The spec lists its fields as executed
  amount, average price, cumulative fee in quote asset and filled flag.
\<close>

record InFlightOrder =
  executed_amount :: rat
  average_price :: rat
  cum_fee_quote :: rat
  is_filled :: bool

text \<open>
  Modelled from the spec: \<^verbatim>\<open>TrackedOrder\<close> (imported by the source file), a leg's
  order identifier, optional until a submission returned one, and its snapshot, absent
  (\<^verbatim>\<open>None\<close>) until the venue acknowledges the order.
\<close>

record TrackedOrder =
  order_id :: "string option"
  order :: "InFlightOrder option"

record TokenAmount =
  token :: string
  amount :: rat

text \<open>The keyword arguments of one call of \<^verbatim>\<open>place_order\<close>.\<close>

record OrderRequest =
  req_connector_name :: string
  req_trading_pair :: string
  req_order_type :: OrderType
  req_side :: TradeType
  req_amount :: rat
  req_price :: "rat option"

record ArbitrageConfig =
  cfg_buying_market :: ExchangePair
  cfg_selling_market :: ExchangePair
  cfg_min_profitability :: rat
  cfg_order_amount :: rat
  cfg_max_retries :: int

text \<open>
  The fields of \<^verbatim>\<open>ArbitrageExecutor\<close> set by \<^verbatim>\<open>__init__\<close>, and three more for
  what the object reaches through its base class: \<open>terminated\<close> is the flag that
  \<^verbatim>\<open>terminate_control_loop\<close> raises to stop the driver, \<open>submitted\<close> is the trace of
  the calls of \<^verbatim>\<open>place_order\<close>, oldest first, and \<open>world\<close> is the state of the
  collaborators (connectors, strategy, rate oracle).
\<close>

record 'w ArbitrageExecutor =
  buying_market :: ExchangePair
  selling_market :: ExchangePair
  min_profitability :: rat
  order_amount :: rat
  max_retries :: int
  arbitrage_status :: ArbitrageExecutorStatus
  buy_order :: TrackedOrder
  sell_order :: TrackedOrder
  last_buy_price :: "rat option"
  last_sell_price :: "rat option"
  last_tx_cost :: "rat option"
  cumulative_failures :: int
  terminated :: bool
  submitted :: "OrderRequest list"
  world :: 'w

text \<open>
  The collaborators, none of which is defined in the source file, as parameters. Each
  call that reaches a venue or the rate oracle takes the collaborators' state and
  returns the new one, so two calls with the same arguments may answer differently.
  \<^item> \<open>has_connector\<close>: whether \<^verbatim>\<open>self.connectors[exchange]\<close> finds a connector;
  \<^item> \<open>get_quote_price\<close>: \<^verbatim>\<open>connector.get_quote_price(trading_pair, is_buy, amount)\<close>;
  \<^item> \<open>amm_connector\<close>: membership in \<^verbatim>\<open>AllConnectorSettings.get_gateway_amm_connector_names()\<close>;
  \<^item> \<open>network_transaction_fee\<close>: the connector's property of that name;
  \<^item> \<open>get_pair_rate\<close>: \<^verbatim>\<open>RateOracle.get_instance().get_pair_rate(pair)\<close>;
  \<^item> \<open>get_fee\<close> and \<open>fee_amount_in_token\<close>: the connector's fee and its conversion;
  \<^item> \<open>split_hb_trading_pair\<close>: the function of that name of \<^verbatim>\<open>hummingbot.connector.utils\<close>;
  \<^item> \<open>submit_order\<close>: the base class's \<^verbatim>\<open>place_order\<close>. Modelled from the spec:
    a submission returns a leg with an order identifier and does not fail synchronously
    (a failure arrives later as a notification);
  \<^item> \<open>get_in_flight_order\<close>: the base class's method of that name.
\<close>

record ('w, 'f) Collaborators =
  has_connector :: "string \<Rightarrow> bool"
  get_quote_price :: "string \<Rightarrow> string \<Rightarrow> bool \<Rightarrow> rat \<Rightarrow> 'w \<Rightarrow> (exn + rat) \<times> 'w"
  amm_connector :: "string \<Rightarrow> bool"
  network_transaction_fee :: "string \<Rightarrow> 'w \<Rightarrow> TokenAmount"
  get_pair_rate :: "string \<Rightarrow> 'w \<Rightarrow> (exn + rat) \<times> 'w"
  get_fee :: "string \<Rightarrow> string \<Rightarrow> string \<Rightarrow> OrderType \<Rightarrow> TradeType \<Rightarrow> rat \<Rightarrow> rat \<Rightarrow> bool
               \<Rightarrow> 'w \<Rightarrow> (exn + 'f) \<times> 'w"
  fee_amount_in_token :: "'f \<Rightarrow> string \<Rightarrow> rat \<Rightarrow> rat \<Rightarrow> string \<Rightarrow> string
               \<Rightarrow> 'w \<Rightarrow> (exn + rat) \<times> 'w"
  split_hb_trading_pair :: "string \<Rightarrow> exn + (string \<times> string)"
  submit_order :: "OrderRequest \<Rightarrow> 'w \<Rightarrow> TrackedOrder \<times> 'w"
  get_in_flight_order :: "string \<Rightarrow> string \<Rightarrow> 'w \<Rightarrow> InFlightOrder option"

section \<open>Operations\<close>

subsection \<open>Decimal arithmetic\<close>

text \<open>
  The arithmetic of Python's \<^verbatim>\<open>decimal\<close> module in its default context, which the
  source file does not change: precision 28, rounding \<^verbatim>\<open>ROUND_HALF_EVEN\<close>, exponents
  from \<^verbatim>\<open>Emin = -999999\<close> to \<^verbatim>\<open>Emax = 999999\<close>, and traps for
  \<^verbatim>\<open>InvalidOperation\<close>, \<^verbatim>\<open>DivisionByZero\<close> and \<^verbatim>\<open>Overflow\<close>. Addition,
  subtraction, multiplication and division return the exact result rounded to 28
  significant digits (to the exponent \<^verbatim>\<open>Etiny = -1000026\<close> for a subnormal result), and
  raise when the rounded result lies beyond \<^verbatim>\<open>Emax\<close>. Comparisons are exact.
\<close>

text \<open>The number of decimal digits of a natural number.\<close>

fun digits :: "nat \<Rightarrow> nat" where
  "digits n = (if n < 10 then 1 else Suc (digits (n div 10)))"

declare digits.simps [simp del]

definition pow10 :: "int \<Rightarrow> rat" where
  "pow10 k = (if 0 \<le> k then 10 ^ nat k else 1 / 10 ^ nat (- k))"

text \<open>
  The adjusted exponent of a positive number \<open>x\<close>: the integer \<open>a\<close> with
  \<open>10 ^ a \<le> x < 10 ^ (a + 1)\<close>.
\<close>

definition adjusted :: "rat \<Rightarrow> int" where
  "adjusted x =
     (if 1 \<le> x then int (digits (nat \<lfloor>x\<rfloor>)) - 1
      else (let m = int (digits (nat \<lfloor>1 / x\<rfloor>))
            in if x = pow10 (1 - m) then 1 - m else - m))"

text \<open>Rounding to the nearest integer, a tie going to the even one.\<close>

definition round_half_even :: "rat \<Rightarrow> int" where
  "round_half_even x =
     (let f = \<lfloor>x\<rfloor>; r = x - of_int f
      in if r < 1 / 2 then f
         else if 1 / 2 < r then f + 1
         else if even f then f else f + 1)"

text \<open>The context's rounding of an exact result.\<close>

definition dec_round :: "rat \<Rightarrow> exn + rat" where
  "dec_round x =
     (if x = 0 then Inr 0
      else
        (let e = max (adjusted \<bar>x\<bar> - 27) (- 1000026);
             y = of_int (round_half_even (\<bar>x\<bar> / pow10 e)) * pow10 e
         in if y \<noteq> 0 \<and> 999999 < adjusted y then Inl Overflow
            else Inr (sgn x * y)))"

definition dec_add :: "rat \<Rightarrow> rat \<Rightarrow> exn + rat" where
  "dec_add a b = dec_round (a + b)"

definition dec_sub :: "rat \<Rightarrow> rat \<Rightarrow> exn + rat" where
  "dec_sub a b = dec_round (a - b)"

definition dec_mul :: "rat \<Rightarrow> rat \<Rightarrow> exn + rat" where
  "dec_mul a b = dec_round (a * b)"

text \<open>Division: a zero divisor raises.\<close>

definition dec_div :: "rat \<Rightarrow> rat \<Rightarrow> exn + rat" where
  "dec_div a b =
     (if b = 0 then (if a = 0 then Inl InvalidOperation else Inl DivisionByZero)
      else dec_round (a / b))"

subsection \<open>The executor\<close>

text \<open>\<^verbatim>\<open>__init__\<close>: a new run, with empty legs and no observation.\<close>

definition init :: "ArbitrageConfig \<Rightarrow> 'w \<Rightarrow> 'w ArbitrageExecutor" where
  "init cfg w =
     \<lparr> buying_market = cfg_buying_market cfg,
       selling_market = cfg_selling_market cfg,
       min_profitability = cfg_min_profitability cfg,
       order_amount = cfg_order_amount cfg,
       max_retries = cfg_max_retries cfg,
       arbitrage_status = NOT_STARTED,
       buy_order = \<lparr> order_id = None, order = None \<rparr>,
       sell_order = \<lparr> order_id = None, order = None \<rparr>,
       last_buy_price = None,
       last_sell_price = None,
       last_tx_cost = None,
       cumulative_failures = 0,
       terminated = False,
       submitted = [],
       world = w \<rparr>"

text \<open>
  The property \<^verbatim>\<open>net_pnl\<close>. Reading a field of an absent snapshot raises
  \<^verbatim>\<open>AttributeError\<close>.
\<close>

definition net_pnl :: "'w ArbitrageExecutor \<Rightarrow> exn + rat" where
  "net_pnl s =
     (if arbitrage_status s = COMPLETED then
        (case order (sell_order s) of
           None \<Rightarrow> Inl AttributeError
         | Some so \<Rightarrow>
            (case dec_mul (executed_amount so) (average_price so) of
               Inl e \<Rightarrow> Inl e
             | Inr sell_quote_amount \<Rightarrow>
                (case order (buy_order s) of
                   None \<Rightarrow> Inl AttributeError
                 | Some bo \<Rightarrow>
                    (case dec_mul (executed_amount bo) (average_price bo) of
                       Inl e \<Rightarrow> Inl e
                     | Inr buy_quote_amount \<Rightarrow>
                        (case dec_add (cum_fee_quote bo) (cum_fee_quote so) of
                           Inl e \<Rightarrow> Inl e
                         | Inr cum_fees \<Rightarrow>
                            (case dec_sub sell_quote_amount buy_quote_amount of
                               Inl e \<Rightarrow> Inl e
                             | Inr d \<Rightarrow> dec_sub d cum_fees))))))
      else Inr 0)"

definition net_pnl_pct :: "'w ArbitrageExecutor \<Rightarrow> exn + rat" where
  "net_pnl_pct s =
     (if arbitrage_status s = COMPLETED then
        (case net_pnl s of
           Inl e \<Rightarrow> Inl e
         | Inr p \<Rightarrow>
            (case order (buy_order s) of
               None \<Rightarrow> Inl AttributeError
             | Some bo \<Rightarrow> dec_div p (executed_amount bo)))
      else Inr 0)"

definition get_resulting_price_for_amount ::
  "('w, 'f) Collaborators \<Rightarrow> string \<Rightarrow> string \<Rightarrow> bool \<Rightarrow> rat \<Rightarrow> 'w ArbitrageExecutor
     \<Rightarrow> (exn + rat) \<times> 'w ArbitrageExecutor" where
  "get_resulting_price_for_amount c ex tp is_buy amt s =
     (if \<not> has_connector c ex then (Inl KeyError, s)
      else (case get_quote_price c ex tp is_buy amt (world s) of
              (r, w') \<Rightarrow> (r, s\<lparr>world := w'\<rparr>)))"

text \<open>
  Modelled from the spec: \<^verbatim>\<open>place_order\<close> of the base class, which is not in the
  source file. The spec's submission takes venue, pair, side, amount and reference price
  and returns a leg with an order identifier. The request is recorded in the trace and
  handed to the collaborator, whose leg is returned.
\<close>

definition place_order ::
  "('w, 'f) Collaborators \<Rightarrow> OrderRequest \<Rightarrow> 'w ArbitrageExecutor
     \<Rightarrow> TrackedOrder \<times> 'w ArbitrageExecutor" where
  "place_order c req s =
     (case submit_order c req (world s) of
        (t, w') \<Rightarrow> (t, s\<lparr>submitted := submitted s @ [req], world := w'\<rparr>))"

definition buy_request :: "'w ArbitrageExecutor \<Rightarrow> OrderRequest" where
  "buy_request s =
     \<lparr> req_connector_name = exchange (buying_market s),
       req_trading_pair = trading_pair (buying_market s),
       req_order_type = MARKET,
       req_side = BUY,
       req_amount = order_amount s,
       req_price = last_buy_price s \<rparr>"

definition sell_request :: "'w ArbitrageExecutor \<Rightarrow> OrderRequest" where
  "sell_request s =
     \<lparr> req_connector_name = exchange (selling_market s),
       req_trading_pair = trading_pair (selling_market s),
       req_order_type = MARKET,
       req_side = SELL,
       req_amount = order_amount s,
       req_price = last_sell_price s \<rparr>"

definition place_buy_arbitrage_order ::
  "('w, 'f) Collaborators \<Rightarrow> 'w ArbitrageExecutor \<Rightarrow> 'w ArbitrageExecutor" where
  "place_buy_arbitrage_order c s =
     (case place_order c (buy_request s) s of (t, s') \<Rightarrow> s'\<lparr>buy_order := t\<rparr>)"

definition place_sell_arbitrage_order ::
  "('w, 'f) Collaborators \<Rightarrow> 'w ArbitrageExecutor \<Rightarrow> 'w ArbitrageExecutor" where
  "place_sell_arbitrage_order c s =
     (case place_order c (sell_request s) s of (t, s') \<Rightarrow> s'\<lparr>sell_order := t\<rparr>)"

definition execute_arbitrage ::
  "('w, 'f) Collaborators \<Rightarrow> 'w ArbitrageExecutor \<Rightarrow> 'w ArbitrageExecutor" where
  "execute_arbitrage c s =
     place_sell_arbitrage_order c
       (place_buy_arbitrage_order c (s\<lparr>arbitrage_status := ACTIVE_ARBITRAGE\<rparr>))"

text \<open>
  Modelled from the spec: \<^verbatim>\<open>terminate_control_loop\<close> of the base class, which is not
  in the source file. The spec has the run signal the driver to stop invoking it; the
  signal is the flag \<open>terminated\<close>.
\<close>

definition terminate_control_loop :: "'w ArbitrageExecutor \<Rightarrow> 'w ArbitrageExecutor" where
  "terminate_control_loop s = s\<lparr>terminated := True\<rparr>"

text \<open>
  \<^verbatim>\<open>get_buy_and_sell_prices\<close>: both quote requests are issued, the buy side first,
  and their results joined; the first failure, if any, is the result. The interleaving
  of the two tasks is not represented.
\<close>

definition get_buy_and_sell_prices ::
  "('w, 'f) Collaborators \<Rightarrow> 'w ArbitrageExecutor
     \<Rightarrow> (exn + rat \<times> rat) \<times> 'w ArbitrageExecutor" where
  "get_buy_and_sell_prices c s =
     (case get_resulting_price_for_amount c (exchange (buying_market s))
             (trading_pair (buying_market s)) True (order_amount s) s of
        (rb, s1) \<Rightarrow>
          (case get_resulting_price_for_amount c (exchange (selling_market s))
                  (trading_pair (selling_market s)) False (order_amount s) s1 of
             (rs, s2) \<Rightarrow>
               (case rb of
                  Inl e \<Rightarrow> (Inl e, s2)
                | Inr buy_price \<Rightarrow>
                   (case rs of
                      Inl e \<Rightarrow> (Inl e, s2)
                    | Inr sell_price \<Rightarrow> (Inr (buy_price, sell_price), s2)))))"

definition get_trade_pnl_pct ::
  "('w, 'f) Collaborators \<Rightarrow> 'w ArbitrageExecutor \<Rightarrow> (exn + rat) \<times> 'w ArbitrageExecutor" where
  "get_trade_pnl_pct c s =
     (case get_buy_and_sell_prices c s of
        (Inl e, s1) \<Rightarrow> (Inl e, s1)
      | (Inr (buy_price, sell_price), s1) \<Rightarrow>
          let s2 = s1\<lparr>last_buy_price := Some buy_price, last_sell_price := Some sell_price\<rparr>
          in (case dec_sub sell_price buy_price of
                Inl e \<Rightarrow> (Inl e, s2)
              | Inr d \<Rightarrow> (dec_div d buy_price, s2)))"

definition get_tx_cost_in_asset ::
  "('w, 'f) Collaborators \<Rightarrow> string \<Rightarrow> string \<Rightarrow> bool \<Rightarrow> rat \<Rightarrow> string \<Rightarrow> 'w ArbitrageExecutor
     \<Rightarrow> (exn + rat) \<times> 'w ArbitrageExecutor" where
  "get_tx_cost_in_asset c ex tp is_buy amt asset s =
     (if \<not> has_connector c ex then (Inl KeyError, s)
      else
        (case get_resulting_price_for_amount c ex tp is_buy amt s of
           (Inl e, s1) \<Rightarrow> (Inl e, s1)
         | (Inr price, s1) \<Rightarrow>
             if amm_connector c ex then
               (let gas_cost = network_transaction_fee c ex (world s1) in
                (case get_pair_rate c (asset @ ''-'' @ token gas_cost) (world s1) of
                   (Inl e, w') \<Rightarrow> (Inl e, s1\<lparr>world := w'\<rparr>)
                 | (Inr conversion_price, w') \<Rightarrow>
                     (dec_div (amount gas_cost) conversion_price, s1\<lparr>world := w'\<rparr>)))
             else
               (case get_fee c ex asset asset MARKET (if is_buy then BUY else SELL)
                       amt price False (world s1) of
                  (Inl e, w') \<Rightarrow> (Inl e, s1\<lparr>world := w'\<rparr>)
                | (Inr fee, w') \<Rightarrow>
                    (case fee_amount_in_token c fee tp price amt asset ex w' of
                       (r, w'') \<Rightarrow> (r, s1\<lparr>world := w''\<rparr>)))))"

definition get_tx_cost_pct ::
  "('w, 'f) Collaborators \<Rightarrow> 'w ArbitrageExecutor \<Rightarrow> (exn + rat) \<times> 'w ArbitrageExecutor" where
  "get_tx_cost_pct c s =
     (case split_hb_trading_pair c (trading_pair (buying_market s)) of
        Inl e \<Rightarrow> (Inl e, s)
      | Inr (base, quote) \<Rightarrow>
         (case get_tx_cost_in_asset c (exchange (buying_market s))
                 (trading_pair (buying_market s)) True (order_amount s) base s of
            (Inl e, s1) \<Rightarrow> (Inl e, s1)
          | (Inr buy_fee, s1) \<Rightarrow>
             (case get_tx_cost_in_asset c (exchange (selling_market s1))
                     (trading_pair (selling_market s1)) False (order_amount s1) base s1 of
                (Inl e, s2) \<Rightarrow> (Inl e, s2)
              | (Inr sell_fee, s2) \<Rightarrow>
                 (case dec_add buy_fee sell_fee of
                    Inl e \<Rightarrow> (Inl e, s2)
                  | Inr tx_cost \<Rightarrow>
                      let s3 = s2\<lparr>last_tx_cost := Some tx_cost\<rparr>
                      in (dec_div tx_cost (order_amount s3), s3)))))"

text \<open>
  \<^verbatim>\<open>check_order_status\<close>: \<^verbatim>\<open>and\<close> reads the sell leg only when the buy leg is filled.
  The first component of the result is the exception that escapes, if any.
\<close>

definition check_order_status ::
  "'w ArbitrageExecutor \<Rightarrow> exn option \<times> 'w ArbitrageExecutor" where
  "check_order_status s =
     (case order (buy_order s) of
        None \<Rightarrow> (Some AttributeError, s)
      | Some bo \<Rightarrow>
          if is_filled bo then
            (case order (sell_order s) of
               None \<Rightarrow> (Some AttributeError, s)
             | Some so \<Rightarrow>
                 if is_filled so
                 then (None, terminate_control_loop (s\<lparr>arbitrage_status := COMPLETED\<rparr>))
                 else (None, s))
          else (None, s))"

text \<open>
  \<^verbatim>\<open>control_task\<close>, the step function. In \<^verbatim>\<open>NOT_STARTED\<close> every exception of the
  \<^verbatim>\<open>try\<close> block is caught and logged. The first component of the result is the
  exception that escapes to the driver, if any.
\<close>

definition control_task ::
  "('w, 'f) Collaborators \<Rightarrow> 'w ArbitrageExecutor \<Rightarrow> exn option \<times> 'w ArbitrageExecutor" where
  "control_task c s =
     (if arbitrage_status s = NOT_STARTED then
        (case get_trade_pnl_pct c s of
           (Inl e, s1) \<Rightarrow> (None, s1)
         | (Inr trade_pnl_pct, s1) \<Rightarrow>
            (case get_tx_cost_pct c s1 of
               (Inl e, s2) \<Rightarrow> (None, s2)
             | (Inr fee_pct, s2) \<Rightarrow>
                (case dec_sub trade_pnl_pct fee_pct of
                   Inl e \<Rightarrow> (None, s2)
                 | Inr profitability \<Rightarrow>
                     if profitability > min_profitability s2
                     then (None, execute_arbitrage c s2)
                     else (None, s2))))
      else if arbitrage_status s = ACTIVE_ARBITRAGE then
        (if cumulative_failures s > max_retries s
         then (None, terminate_control_loop (s\<lparr>arbitrage_status := FAILED\<rparr>))
         else check_order_status s)
      else (None, s))"

definition process_order_created_event ::
  "('w, 'f) Collaborators \<Rightarrow> string \<Rightarrow> 'w ArbitrageExecutor \<Rightarrow> 'w ArbitrageExecutor" where
  "process_order_created_event c event_order_id s =
     (if order_id (buy_order s) = Some event_order_id then
        s\<lparr>buy_order := (buy_order s)
            \<lparr>order := get_in_flight_order c (exchange (buying_market s)) event_order_id (world s)\<rparr>\<rparr>
      else if order_id (sell_order s) = Some event_order_id then
        s\<lparr>sell_order := (sell_order s)
            \<lparr>order := get_in_flight_order c (exchange (selling_market s)) event_order_id (world s)\<rparr>\<rparr>
      else s)"

definition process_order_failed_event ::
  "('w, 'f) Collaborators \<Rightarrow> string \<Rightarrow> 'w ArbitrageExecutor \<Rightarrow> 'w ArbitrageExecutor" where
  "process_order_failed_event c event_order_id s =
     (if order_id (buy_order s) = Some event_order_id then
        (let s1 = place_buy_arbitrage_order c s
         in s1\<lparr>cumulative_failures := cumulative_failures s1 + 1\<rparr>)
      else if order_id (sell_order s) = Some event_order_id then
        (let s1 = place_sell_arbitrage_order c s
         in s1\<lparr>cumulative_failures := cumulative_failures s1 + 1\<rparr>)
      else s)"

subsection \<open>The status report\<close>

text \<open>
  How Python renders a \<^verbatim>\<open>Decimal\<close> and a member of the status enumeration inside an
  f-string depends on code that is not in the source file; both renderings are parameters.
\<close>

record Formatter =
  str_decimal :: "rat \<Rightarrow> string"
  str_status :: "ArbitrageExecutorStatus \<Rightarrow> string"

definition newline :: string where
  "newline = [CHR 0x0A]"

text \<open>\<^verbatim>\<open>sep.join(lines)\<close>.\<close>

fun join :: "string \<Rightarrow> string list \<Rightarrow> string" where
  "join sep [] = []"
| "join sep [x] = x"
| "join sep (x # y # ys) = x @ sep @ join sep (y # ys)"

text \<open>
  \<^verbatim>\<open>lines.extend(text)\<close> with a string argument: \<^verbatim>\<open>extend\<close> iterates over its
  argument, and iterating over a string yields its characters, each a string of length one.
\<close>

definition extend_with_str :: "string list \<Rightarrow> string \<Rightarrow> string list" where
  "extend_with_str lines txt = lines @ map (\<lambda>ch. [ch]) txt"

text \<open>
  The first f-string of \<^verbatim>\<open>to_format_status\<close>; its last argument is the value of the
  subtraction that the f-string evaluates.
\<close>

definition status_text ::
  "Formatter \<Rightarrow> 'w ArbitrageExecutor \<Rightarrow> rat \<Rightarrow> rat \<Rightarrow> rat \<Rightarrow> rat \<Rightarrow> rat \<Rightarrow> string" where
  "status_text fmt s buy_price sell_price trade_pnl_pct tx_cost_pct net_pct =
     newline @ ''Buy:'' @ newline
     @ ''    Exchange: '' @ exchange (buying_market s)
     @ '' | Trading Pair: '' @ trading_pair (buying_market s)
     @ '' | Price: '' @ str_decimal fmt buy_price @ newline
     @ ''Sell'' @ newline
     @ ''    Exchange: '' @ exchange (selling_market s)
     @ '' | Trading Pair: '' @ trading_pair (selling_market s)
     @ '' | Price: '' @ str_decimal fmt sell_price @ newline
     @ ''Order Amount: '' @ str_decimal fmt (order_amount s) @ newline
     @ ''Real-time Profit analysis:'' @ newline
     @ ''    Trade PnL (%): '' @ str_decimal fmt trade_pnl_pct
     @ '' | TX Cost (%): '' @ str_decimal fmt tx_cost_pct @ newline
     @ ''    Net PnL (%): '' @ str_decimal fmt net_pct @ newline
     @ ''Arbitrage Status: '' @ str_status fmt (arbitrage_status s)"

text \<open>The second f-string of \<^verbatim>\<open>to_format_status\<close>.\<close>

definition profit_text :: "Formatter \<Rightarrow> string \<Rightarrow> rat \<Rightarrow> rat \<Rightarrow> string" where
  "profit_text fmt quote pnl_pct pnl =
     newline @ ''Total Profit (%): '' @ str_decimal fmt pnl_pct
     @ '' | Total Profit ('' @ quote @ ''): '' @ str_decimal fmt pnl @ newline"

text \<open>
  \<^verbatim>\<open>to_format_status\<close>. Arithmetic on a price or a cost that is still \<^verbatim>\<open>None\<close>
  raises \<^verbatim>\<open>TypeError\<close>.
\<close>

definition to_format_status ::
  "Formatter \<Rightarrow> ('w, 'f) Collaborators \<Rightarrow> 'w ArbitrageExecutor \<Rightarrow> exn + string" where
  "to_format_status fmt c s =
     (case (last_sell_price s, last_buy_price s) of
        (Some sell_price, Some buy_price) \<Rightarrow>
          (case dec_sub sell_price buy_price of
             Inl e \<Rightarrow> Inl e
           | Inr d \<Rightarrow>
          (case dec_div d buy_price of
             Inl e \<Rightarrow> Inl e
           | Inr trade_pnl_pct \<Rightarrow>
              (case last_tx_cost s of
                 None \<Rightarrow> Inl TypeError
               | Some tx_cost \<Rightarrow>
                  (case dec_div tx_cost (order_amount s) of
                     Inl e \<Rightarrow> Inl e
                   | Inr tx_cost_pct \<Rightarrow>
                      (case split_hb_trading_pair c (trading_pair (buying_market s)) of
                         Inl e \<Rightarrow> Inl e
                       | Inr (base, quote) \<Rightarrow>
                          (case dec_sub trade_pnl_pct tx_cost_pct of
                             Inl e \<Rightarrow> Inl e
                           | Inr net_pct \<Rightarrow>
                          (let lines = extend_with_str []
                                 (status_text fmt s buy_price sell_price trade_pnl_pct
                                    tx_cost_pct net_pct)
                           in if arbitrage_status s = COMPLETED then
                                (case net_pnl_pct s of
                                   Inl e \<Rightarrow> Inl e
                                 | Inr pnl_pct \<Rightarrow>
                                    (case net_pnl s of
                                       Inl e \<Rightarrow> Inl e
                                     | Inr pnl \<Rightarrow>
                                         Inr (join newline
                                           (extend_with_str lines
                                              (profit_text fmt quote pnl_pct pnl)))))
                              else Inr (join newline lines))))))))
      | _ \<Rightarrow> Inl TypeError)"

section \<open>Notions of the specification\<close>

text \<open>Both legs report filled: each leg has a snapshot and its filled flag is set.\<close>

definition both_legs_filled :: "'w ArbitrageExecutor \<Rightarrow> bool" where
  "both_legs_filled s =
     ((case order (buy_order s) of None \<Rightarrow> False | Some bo \<Rightarrow> is_filled bo)
      \<and> (case order (sell_order s) of None \<Rightarrow> False | Some so \<Rightarrow> is_filled so))"

text \<open>The order of the statuses: not started, then active, then the two terminal ones.\<close>

fun status_rank :: "ArbitrageExecutorStatus \<Rightarrow> nat" where
  "status_rank NOT_STARTED = 0"
| "status_rank ACTIVE_ARBITRAGE = 1"
| "status_rank COMPLETED = 2"
| "status_rank FAILED = 2"

definition terminal :: "ArbitrageExecutorStatus \<Rightarrow> bool" where
  "terminal st = (st = COMPLETED \<or> st = FAILED)"

text \<open>
  The evaluated net profitability of the specification: the quoted spread minus the
  transaction-cost fraction, a decimal subtraction, or the first exception of the
  evaluation, with the run as the evaluation leaves it.
\<close>

definition net_profitability_pct ::
  "('w, 'f) Collaborators \<Rightarrow> 'w ArbitrageExecutor \<Rightarrow> (exn + rat) \<times> 'w ArbitrageExecutor" where
  "net_profitability_pct c s =
     (case get_trade_pnl_pct c s of
        (Inl e, s1) \<Rightarrow> (Inl e, s1)
      | (Inr spread, s1) \<Rightarrow>
         (case get_tx_cost_pct c s1 of
            (Inl e, s2) \<Rightarrow> (Inl e, s2)
          | (Inr cost, s2) \<Rightarrow> (dec_sub spread cost, s2)))"

text \<open>
  What an evaluation of the profitability may not touch: everything of the run but the
  last observed prices, the last observed cost and the collaborators' state.
\<close>

definition evaluation_frame :: "'w ArbitrageExecutor \<Rightarrow> 'w ArbitrageExecutor \<Rightarrow> bool" where
  "evaluation_frame s s' =
     (buying_market s' = buying_market s \<and> selling_market s' = selling_market s
      \<and> min_profitability s' = min_profitability s \<and> order_amount s' = order_amount s
      \<and> max_retries s' = max_retries s \<and> arbitrage_status s' = arbitrage_status s
      \<and> buy_order s' = buy_order s \<and> sell_order s' = sell_order s
      \<and> cumulative_failures s' = cumulative_failures s \<and> terminated s' = terminated s
      \<and> submitted s' = submitted s)"

text \<open>
  The transaction cost of the two legs in terms of a given asset: the buy leg's cost plus
  the sell leg's cost, each computed for that asset.
\<close>

definition leg_costs_in ::
  "('w, 'f) Collaborators \<Rightarrow> string \<Rightarrow> 'w ArbitrageExecutor \<Rightarrow> exn + rat" where
  "leg_costs_in c asset s =
     (case get_tx_cost_in_asset c (exchange (buying_market s)) (trading_pair (buying_market s))
             True (order_amount s) asset s of
        (Inl e, s1) \<Rightarrow> Inl e
      | (Inr buy_fee, s1) \<Rightarrow>
         (case get_tx_cost_in_asset c (exchange (selling_market s))
                 (trading_pair (selling_market s)) False (order_amount s) asset s1 of
            (Inl e, s2) \<Rightarrow> Inl e
          | (Inr sell_fee, s2) \<Rightarrow> dec_add buy_fee sell_fee))"

text \<open>The operations on a run: a tick of the driver and the two notifications.\<close>

datatype Operation = Tick | OrderCreated string | OrderFailed string

fun apply_operation ::
  "('w, 'f) Collaborators \<Rightarrow> Operation \<Rightarrow> 'w ArbitrageExecutor \<Rightarrow> 'w ArbitrageExecutor" where
  "apply_operation c Tick s = snd (control_task c s)"
| "apply_operation c (OrderCreated i) s = process_order_created_event c i s"
| "apply_operation c (OrderFailed i) s = process_order_failed_event c i s"

fun run_operations ::
  "('w, 'f) Collaborators \<Rightarrow> Operation list \<Rightarrow> 'w ArbitrageExecutor \<Rightarrow> 'w ArbitrageExecutor" where
  "run_operations c [] s = s"
| "run_operations c (x # xs) s = run_operations c xs (apply_operation c x s)"

text \<open>The step function invoked \<open>n\<close> times in a row.\<close>

fun steps ::
  "('w, 'f) Collaborators \<Rightarrow> nat \<Rightarrow> 'w ArbitrageExecutor \<Rightarrow> 'w ArbitrageExecutor" where
  "steps c 0 s = s"
| "steps c (Suc n) s = steps c n (snd (control_task c s))"

section \<open>A concrete run\<close>

text \<open>
  Two order-book venues and one automated market maker. Every buy quote is 100 and
  every sell quote 101; an order-book fee is 1/40 of the base asset, or that amount times
  the price when asked for in USDT; the gas fee of the
  market maker is 1/100 ETH and one WBTC is 20 ETH. A submission answers with a fresh
  identifier, numbered by the count of submissions so far.
\<close>

definition demo_collab :: "(nat, rat) Collaborators" where
  "demo_collab =
     \<lparr> has_connector = (\<lambda>ex. ex \<in> set [''binance'', ''kucoin'', ''uniswap'']),
       get_quote_price = (\<lambda>ex tp is_buy amt w. (Inr (if is_buy then 100 else 101), w)),
       amm_connector = (\<lambda>ex. ex = ''uniswap''),
       network_transaction_fee = (\<lambda>ex w. \<lparr> token = ''ETH'', amount = 1 / 100 \<rparr>),
       get_pair_rate = (\<lambda>p w. (if p = ''WBTC-ETH'' then Inr 20
                                  else Inl (CollaboratorError ''RateUnavailable''), w)),
       get_fee = (\<lambda>ex b q ot sd amt price is_maker w. (Inr (1 / 40), w)),
       fee_amount_in_token = (\<lambda>fee tp price amt tok ex w.
          (Inr (if tok = ''USDT'' then fee * price else fee), w)),
       split_hb_trading_pair =
         (\<lambda>tp. if tp = ''ETH-USDT'' then Inr (''ETH'', ''USDT'')
                else if tp = ''WBTC-USDT'' then Inr (''WBTC'', ''USDT'')
                else Inl ValueError),
       submit_order = (\<lambda>req w.
          (\<lparr> order_id = Some ((if req_side req = BUY then ''buy-'' else ''sell-'')
                                 @ replicate w (CHR ''i'')),
             order = None \<rparr>, Suc w)),
       get_in_flight_order = (\<lambda>ex i w. None) \<rparr>"

definition demo_config :: ArbitrageConfig where
  "demo_config =
     \<lparr> cfg_buying_market = \<lparr> exchange = ''binance'', trading_pair = ''ETH-USDT'' \<rparr>,
       cfg_selling_market = \<lparr> exchange = ''kucoin'', trading_pair = ''ETH-USDT'' \<rparr>,
       cfg_min_profitability = 3 / 1000,
       cfg_order_amount = 10,
       cfg_max_retries = 2 \<rparr>"

definition demo_amm_config :: ArbitrageConfig where
  "demo_amm_config =
     \<lparr> cfg_buying_market = \<lparr> exchange = ''uniswap'', trading_pair = ''WBTC-USDT'' \<rparr>,
       cfg_selling_market = \<lparr> exchange = ''binance'', trading_pair = ''WBTC-USDT'' \<rparr>,
       cfg_min_profitability = 3 / 1000,
       cfg_order_amount = 10,
       cfg_max_retries = 2 \<rparr>"

definition demo_start :: "nat ArbitrageExecutor" where
  "demo_start = init demo_config 0"

text \<open>The run after both legs were submitted with the identifiers \<open>buy-\<close> and \<open>sell-i\<close>.\<close>

definition demo_active :: "nat ArbitrageExecutor" where
  "demo_active =
     (init demo_config 2)
       \<lparr> arbitrage_status := ACTIVE_ARBITRAGE,
         buy_order := \<lparr> order_id = Some ''buy-'', order = None \<rparr>,
         sell_order := \<lparr> order_id = Some ''sell-i'', order = None \<rparr>,
         last_buy_price := Some 100,
         last_sell_price := Some 101,
         last_tx_cost := Some (1 / 20) \<rparr>"

definition demo_buy_fill :: InFlightOrder where
  "demo_buy_fill =
     \<lparr> executed_amount = 10, average_price = 100, cum_fee_quote = 1, is_filled = True \<rparr>"

definition demo_sell_fill :: InFlightOrder where
  "demo_sell_fill =
     \<lparr> executed_amount = 10, average_price = 101, cum_fee_quote = 1, is_filled = True \<rparr>"

text \<open>The run with both legs filled, before and after the step that completes it.\<close>

definition demo_filled :: "nat ArbitrageExecutor" where
  "demo_filled =
     demo_active
       \<lparr> buy_order := \<lparr> order_id = Some ''buy-'', order = Some demo_buy_fill \<rparr>,
         sell_order := \<lparr> order_id = Some ''sell-i'', order = Some demo_sell_fill \<rparr> \<rparr>"

definition demo_completed :: "nat ArbitrageExecutor" where
  "demo_completed = demo_filled \<lparr> arbitrage_status := COMPLETED, terminated := True \<rparr>"

text \<open>
  A completed run whose profit, 303 - 300 - 1 = 2, is not a multiple of the amount 3.
\<close>

definition demo_thirds :: "nat ArbitrageExecutor" where
  "demo_thirds =
     demo_completed
       \<lparr> buy_order := \<lparr> order_id = Some ''buy-'',
            order = Some \<lparr> executed_amount = 3, average_price = 100, cum_fee_quote = 0,
                           is_filled = True \<rparr> \<rparr>,
         sell_order := \<lparr> order_id = Some ''sell-i'',
            order = Some \<lparr> executed_amount = 3, average_price = 101, cum_fee_quote = 1,
                           is_filled = True \<rparr> \<rparr> \<rparr>"


text \<open>The same venues with a rate oracle that answers 3 for every pair.\<close>

definition demo_rate3_collab :: "(nat, rat) Collaborators" where
  "demo_rate3_collab = demo_collab \<lparr> get_pair_rate := (\<lambda>p w. (Inr 3, w)) \<rparr>"

text \<open>A rendering of the decimals of the concrete run, and of the statuses.\<close>

definition demo_fmt :: Formatter where
  "demo_fmt =
     \<lparr> str_decimal = (\<lambda>r. if r = 100 then ''100'' else if r = 101 then ''101''
                           else if r = 10 then ''10'' else if r = 1 / 100 then ''0.01''
                           else if r = 1 / 200 then ''0.005'' else if r = 8 then ''8''
                           else if r = 4 / 5 then ''0.8'' else ''?''),
       str_status = (\<lambda>st. ''ArbitrageExecutorStatus.'' @
                        (case st of NOT_STARTED \<Rightarrow> ''NOT_STARTED''
                         | ACTIVE_ARBITRAGE \<Rightarrow> ''ACTIVE_ARBITRAGE''
                         | COMPLETED \<Rightarrow> ''COMPLETED''
                         | FAILED \<Rightarrow> ''FAILED'')) \<rparr>"

section \<open>Evaluating decimal arithmetic\<close>

lemma floor_rat_numeral:
  "\<lfloor>(numeral a :: rat) / numeral b\<rfloor> = numeral a div numeral b"
  using floor_divide_of_int_eq [of "numeral a" "numeral b", where ?'a = rat] by simp

lemmas dec_eval =
  dec_add_def dec_sub_def dec_mul_def dec_div_def dec_round_def adjusted_def
  round_half_even_def pow10_def Let_def digits.simps floor_rat_numeral

lemma dec_values:
  "dec_sub 101 100 = Inr 1"
  "dec_div 1 100 = Inr (1 / 100)"
  "dec_add (1 / 40) (1 / 40) = Inr (1 / 20)"
  "dec_div (1 / 20) 10 = Inr (1 / 200)"
  "dec_sub (1 / 100) (1 / 200) = Inr (1 / 200)"
  "dec_mul 10 101 = Inr 1010"
  "dec_mul 10 100 = Inr 1000"
  "dec_add 1 1 = Inr 2"
  "dec_sub 1010 1000 = Inr 10"
  "dec_sub 10 2 = Inr 8"
  "dec_div 8 10 = Inr (4 / 5)"
  "dec_div (1 / 100) 20 = Inr (1 / 2000)"
  "dec_add (1 / 2000) (1 / 40) = Inr (51 / 2000)"
  "dec_div (51 / 2000) 10 = Inr (51 / 20000)"
  "dec_add (5 / 2) (101 / 40) = Inr (201 / 40)"
  by (simp_all add: dec_eval)

lemma dec_values_rounded:
  "dec_sub 4 3 = Inr 1"
  "dec_div 1 3 = Inr (3333333333333333333333333333 / 10000000000000000000000000000)"
  "dec_add 0 0 = Inr 0"
  "dec_div 0 10 = Inr 0"
  "dec_sub (3333333333333333333333333333 / 10000000000000000000000000000) 0
     = Inr (3333333333333333333333333333 / 10000000000000000000000000000)"
  "dec_mul 3 101 = Inr 303"
  "dec_mul 3 100 = Inr 300"
  "dec_add 0 1 = Inr 1"
  "dec_sub 303 300 = Inr 3"
  "dec_sub 3 1 = Inr 2"
  "dec_div 2 3 = Inr (6666666666666666666666666667 / 10000000000000000000000000000)"
  "dec_div (1 / 100) 3
     = Inr (3333333333333333333333333333 / 1000000000000000000000000000000)"
  by (simp_all add: dec_eval)

section \<open>The step function in the active status\<close>

lemma check_order_status_filled:
  "both_legs_filled s \<Longrightarrow>
     check_order_status s = (None, s\<lparr>arbitrage_status := COMPLETED, terminated := True\<rparr>)"
  by (auto simp: both_legs_filled_def check_order_status_def terminate_control_loop_def
      split: option.splits)

lemma check_order_status_unfilled:
  "\<not> both_legs_filled s \<Longrightarrow> snd (check_order_status s) = s"
  by (auto simp: both_legs_filled_def check_order_status_def split: option.splits)

text \<open>
  Claim C1. For a run in status \<^verbatim>\<open>ACTIVE_ARBITRAGE\<close>, one invocation of the step
  function sets the status to \<^verbatim>\<open>FAILED\<close> exactly when the cumulative failures exceed
  the maximum retries (tested first, whatever the fill state of the legs); otherwise it
  sets the status to \<^verbatim>\<open>COMPLETED\<close> exactly when both legs report filled; otherwise
  the run is left as it was. With either terminal status the control loop is told to
  stop.
\<close>

theorem control_task_active:
  assumes "arbitrage_status s = ACTIVE_ARBITRAGE"
  shows "(cumulative_failures s > max_retries s \<longrightarrow>
            control_task c s = (None, s\<lparr>arbitrage_status := FAILED, terminated := True\<rparr>))
       \<and> (\<not> cumulative_failures s > max_retries s \<and> both_legs_filled s \<longrightarrow>
            control_task c s = (None, s\<lparr>arbitrage_status := COMPLETED, terminated := True\<rparr>))
       \<and> (\<not> cumulative_failures s > max_retries s \<and> \<not> both_legs_filled s \<longrightarrow>
            snd (control_task c s) = s)
       \<and> (arbitrage_status (snd (control_task c s)) = FAILED
            \<longleftrightarrow> cumulative_failures s > max_retries s)
       \<and> (arbitrage_status (snd (control_task c s)) = COMPLETED
            \<longleftrightarrow> \<not> cumulative_failures s > max_retries s \<and> both_legs_filled s)
       \<and> (terminal (arbitrage_status (snd (control_task c s)))
            \<longrightarrow> terminated (snd (control_task c s)))"
proof -
  let ?over = "cumulative_failures s > max_retries s"
  have failed: "control_task c s = (None, s\<lparr>arbitrage_status := FAILED, terminated := True\<rparr>)"
    if ?over
    using assms that by (simp add: control_task_def terminate_control_loop_def)
  have completed:
    "control_task c s = (None, s\<lparr>arbitrage_status := COMPLETED, terminated := True\<rparr>)"
    if "\<not> ?over" "both_legs_filled s"
    using assms that by (simp add: control_task_def check_order_status_filled)
  have same: "snd (control_task c s) = s" if "\<not> ?over" "\<not> both_legs_filled s"
    using assms that by (simp add: control_task_def check_order_status_unfilled)
  show ?thesis
  proof (cases ?over)
    case True
    with failed show ?thesis by (simp add: terminal_def)
  next
    case False
    show ?thesis
    proof (cases "both_legs_filled s")
      case True
      with False completed show ?thesis by (simp add: terminal_def)
    next
      case unfilled: False
      with False same assms show ?thesis by (simp add: terminal_def)
    qed
  qed
qed

theorem control_task_active_witness:
  "arbitrage_status demo_filled = ACTIVE_ARBITRAGE
   \<and> control_task demo_collab demo_filled = (None, demo_completed)
   \<and> control_task demo_collab (demo_filled\<lparr>cumulative_failures := 3\<rparr>)
       = (None, demo_filled\<lparr>cumulative_failures := 3, arbitrage_status := FAILED,
                 terminated := True\<rparr>)
   \<and> snd (control_task demo_collab demo_active) = demo_active"
  using control_task_active [of demo_filled demo_collab]
     control_task_active [of "demo_filled\<lparr>cumulative_failures := 3\<rparr>" demo_collab]
     control_task_active [of demo_active demo_collab]
  by (simp add: demo_filled_def demo_active_def init_def demo_config_def both_legs_filled_def
       demo_buy_fill_def demo_sell_fill_def demo_completed_def)

section \<open>The step function before the start\<close>

lemma evaluation_frame_refl: "evaluation_frame s s"
  by (simp add: evaluation_frame_def)

lemma evaluation_frame_trans:
  "evaluation_frame s s1 \<Longrightarrow> evaluation_frame s1 s2 \<Longrightarrow> evaluation_frame s s2"
  by (simp add: evaluation_frame_def)

lemma frame_price:
  "evaluation_frame s (snd (get_resulting_price_for_amount c ex tp b amt s))"
  by (simp add: get_resulting_price_for_amount_def evaluation_frame_def split: prod.splits)

lemma frame_prices: "evaluation_frame s (snd (get_buy_and_sell_prices c s))"
proof -
  obtain rb s1 where b: "get_resulting_price_for_amount c (exchange (buying_market s))
             (trading_pair (buying_market s)) True (order_amount s) s = (rb, s1)"
    by (cases "get_resulting_price_for_amount c (exchange (buying_market s))
             (trading_pair (buying_market s)) True (order_amount s) s")
  obtain rs s2 where e: "get_resulting_price_for_amount c (exchange (selling_market s))
                  (trading_pair (selling_market s)) False (order_amount s) s1 = (rs, s2)"
    by (cases "get_resulting_price_for_amount c (exchange (selling_market s))
                  (trading_pair (selling_market s)) False (order_amount s) s1")
  have f1: "evaluation_frame s s1" using frame_price [of s c _ _ True] b
    by (metis snd_conv)
  have f2: "evaluation_frame s1 s2" using frame_price [of s1 c _ _ False] e
    by (metis snd_conv)
  have "snd (get_buy_and_sell_prices c s) = s2"
    by (simp add: get_buy_and_sell_prices_def b e split: sum.splits)
  with f1 f2 show ?thesis by (simp add: evaluation_frame_trans)
qed

lemma frame_trade_pnl: "evaluation_frame s (snd (get_trade_pnl_pct c s))"
  using frame_prices [of s c]
  by (auto simp: get_trade_pnl_pct_def evaluation_frame_def Let_def split: prod.splits sum.splits)

lemma frame_cost_in_asset:
  "evaluation_frame s (snd (get_tx_cost_in_asset c ex tp b amt asset s))"
proof (cases "has_connector c ex")
  case False
  then show ?thesis by (simp add: get_tx_cost_in_asset_def evaluation_frame_refl)
next
  case True
  obtain r s1 where q: "get_resulting_price_for_amount c ex tp b amt s = (r, s1)"
    by (cases "get_resulting_price_for_amount c ex tp b amt s")
  have f1: "evaluation_frame s s1" using frame_price [of s c ex tp b amt] q by simp
  have "evaluation_frame s1 (snd (get_tx_cost_in_asset c ex tp b amt asset s))"
    using True q
    by (auto simp: get_tx_cost_in_asset_def evaluation_frame_def Let_def
        split: prod.splits sum.splits)
  with f1 show ?thesis by (rule evaluation_frame_trans)
qed

lemma price_world:
  "get_resulting_price_for_amount c ex tp b amt s = (r, s') \<Longrightarrow> s' = s\<lparr>world := world s'\<rparr>"
  by (auto simp: get_resulting_price_for_amount_def split: prod.splits if_splits)

lemma cost_in_asset_world:
  assumes "get_tx_cost_in_asset c ex tp b amt asset s = (r, s')"
  shows "s' = s\<lparr>world := world s'\<rparr>"
proof (cases "has_connector c ex")
  case False
  with assms show ?thesis by (simp add: get_tx_cost_in_asset_def)
next
  case True
  obtain q s1 where q: "get_resulting_price_for_amount c ex tp b amt s = (q, s1)"
    by (cases "get_resulting_price_for_amount c ex tp b amt s")
  have s1: "s1 = s\<lparr>world := world s1\<rparr>" using q by (rule price_world)
  have "s' = s1\<lparr>world := world s'\<rparr>"
    using assms True q
    by (auto simp: get_tx_cost_in_asset_def Let_def split: prod.splits sum.splits if_splits)
  then have "s' = (s\<lparr>world := world s1\<rparr>)\<lparr>world := world s'\<rparr>" using s1 by simp
  then show ?thesis by simp
qed


lemma cost_pct_cases:
  assumes "get_tx_cost_pct c s = (r, s')"
  shows "s' = s\<lparr>world := world s'\<rparr>
       \<or> (\<exists>t. s' = s\<lparr>last_tx_cost := Some t, world := world s'\<rparr>)"
proof (cases "split_hb_trading_pair c (trading_pair (buying_market s))")
  case (Inl e)
  with assms show ?thesis by (simp add: get_tx_cost_pct_def)
next
  case (Inr bq)
  obtain base quote where bq: "bq = (base, quote)" by (cases bq)
  obtain r1 s1 where a: "get_tx_cost_in_asset c (exchange (buying_market s))
                 (trading_pair (buying_market s)) True (order_amount s) base s = (r1, s1)"
    by (cases "get_tx_cost_in_asset c (exchange (buying_market s))
                 (trading_pair (buying_market s)) True (order_amount s) base s")
  have w1: "s1 = s\<lparr>world := world s1\<rparr>" using a by (rule cost_in_asset_world)
  have m1: "selling_market s1 = selling_market s" "order_amount s1 = order_amount s"
    by (subst w1, simp)+
  show ?thesis
  proof (cases r1)
    case (Inl e)
    then have "s' = s1" using assms Inr bq a by (simp add: get_tx_cost_pct_def)
    with w1 show ?thesis by simp
  next
    case r1: (Inr buy_fee)
    obtain r2 s2 where b: "get_tx_cost_in_asset c (exchange (selling_market s))
                     (trading_pair (selling_market s)) False (order_amount s) base s1 = (r2, s2)"
      by (cases "get_tx_cost_in_asset c (exchange (selling_market s))
                     (trading_pair (selling_market s)) False (order_amount s) base s1")
    have w2: "s2 = s1\<lparr>world := world s2\<rparr>" using b by (rule cost_in_asset_world)
    have s2: "s2 = s\<lparr>world := world s2\<rparr>"
    proof -
      have "s2 = (s\<lparr>world := world s1\<rparr>)\<lparr>world := world s2\<rparr>" using w1 w2 by simp
      then show ?thesis by simp
    qed
    show ?thesis
    proof (cases r2)
      case (Inl e)
      then have "s' = s2" using assms Inr bq a b r1 m1 by (simp add: get_tx_cost_pct_def)
      with s2 show ?thesis by simp
    next
      case r2: (Inr sell_fee)
      show ?thesis
      proof (cases "dec_add buy_fee sell_fee")
        case (Inl e)
        then have "s' = s2" using assms Inr bq a b r1 r2 m1 by (simp add: get_tx_cost_pct_def)
        with s2 show ?thesis by simp
      next
        case t: (Inr t)
        then have "s' = s2\<lparr>last_tx_cost := Some t\<rparr>"
          using assms Inr bq a b r1 r2 m1 by (simp add: get_tx_cost_pct_def Let_def)
        then have "s' = (s\<lparr>world := world s2\<rparr>)\<lparr>last_tx_cost := Some t\<rparr>"
          using s2 by simp
        then have "s' = s\<lparr>last_tx_cost := Some t, world := world s'\<rparr>" by simp
        then show ?thesis by blast
      qed
    qed
  qed
qed

lemma frame_cost_pct: "evaluation_frame s (snd (get_tx_cost_pct c s))"
proof -
  obtain r s' where e: "get_tx_cost_pct c s = (r, s')" by (cases "get_tx_cost_pct c s")
  have "evaluation_frame s s'"
    using cost_pct_cases [OF e]
  proof
    assume "s' = s\<lparr>world := world s'\<rparr>"
    then have "evaluation_frame s s' = evaluation_frame s (s\<lparr>world := world s'\<rparr>)" by simp
    then show ?thesis by (simp add: evaluation_frame_def)
  next
    assume "\<exists>t. s' = s\<lparr>last_tx_cost := Some t, world := world s'\<rparr>"
    then obtain t where "s' = s\<lparr>last_tx_cost := Some t, world := world s'\<rparr>" by blast
    then have "evaluation_frame s s'
       = evaluation_frame s (s\<lparr>last_tx_cost := Some t, world := world s'\<rparr>)" by simp
    then show ?thesis by (simp add: evaluation_frame_def)
  qed
  with e show ?thesis by simp
qed

lemma frame_net_profitability: "evaluation_frame s (snd (net_profitability_pct c s))"
proof -
  obtain r1 s1 where a: "get_trade_pnl_pct c s = (r1, s1)" by (cases "get_trade_pnl_pct c s")
  obtain r2 s2 where b: "get_tx_cost_pct c s1 = (r2, s2)" by (cases "get_tx_cost_pct c s1")
  have f1: "evaluation_frame s s1" using frame_trade_pnl [of s c] a by simp
  have f2: "evaluation_frame s1 s2" using frame_cost_pct [of s1 c] b by simp
  have "snd (net_profitability_pct c s) = s1 \<or> snd (net_profitability_pct c s) = s2"
    using a b by (simp add: net_profitability_pct_def split: sum.splits)
  with f1 f2 show ?thesis using evaluation_frame_trans by metis
qed

lemma not_started_step_eq:
  "arbitrage_status s = NOT_STARTED \<Longrightarrow>
   control_task c s =
     (case net_profitability_pct c s of
        (Inl e, s') \<Rightarrow> (None, s')
      | (Inr p, s') \<Rightarrow>
          if p > min_profitability s' then (None, execute_arbitrage c s') else (None, s'))"
  by (simp add: control_task_def net_profitability_pct_def split: prod.splits sum.splits)

lemma place_order_frame:
  "place_order c req s = (t, s') \<Longrightarrow>
     s' = s\<lparr>submitted := submitted s @ [req], world := world s'\<rparr>"
  by (auto simp: place_order_def split: prod.splits)

lemma place_buy_simps:
  "submitted (place_buy_arbitrage_order c s) = submitted s @ [buy_request s]"
  "arbitrage_status (place_buy_arbitrage_order c s) = arbitrage_status s"
  "sell_order (place_buy_arbitrage_order c s) = sell_order s"
  "cumulative_failures (place_buy_arbitrage_order c s) = cumulative_failures s"
  "sell_request (place_buy_arbitrage_order c s) = sell_request s"
  "buy_request (place_buy_arbitrage_order c s) = buy_request s"
  by (simp_all add: place_buy_arbitrage_order_def place_order_def sell_request_def
        buy_request_def split: prod.splits)

lemma place_sell_simps:
  "submitted (place_sell_arbitrage_order c s) = submitted s @ [sell_request s]"
  "arbitrage_status (place_sell_arbitrage_order c s) = arbitrage_status s"
  "buy_order (place_sell_arbitrage_order c s) = buy_order s"
  "cumulative_failures (place_sell_arbitrage_order c s) = cumulative_failures s"
  "sell_request (place_sell_arbitrage_order c s) = sell_request s"
  "buy_request (place_sell_arbitrage_order c s) = buy_request s"
  by (simp_all add: place_sell_arbitrage_order_def place_order_def sell_request_def
        buy_request_def split: prod.splits)

lemma request_status:
  "buy_request (s\<lparr>arbitrage_status := st\<rparr>) = buy_request s"
  "sell_request (s\<lparr>arbitrage_status := st\<rparr>) = sell_request s"
  by (simp_all add: buy_request_def sell_request_def)

lemma execute_arbitrage_simps:
  "arbitrage_status (execute_arbitrage c s) = ACTIVE_ARBITRAGE"
  "submitted (execute_arbitrage c s) = submitted s @ [buy_request s, sell_request s]"
  "cumulative_failures (execute_arbitrage c s) = cumulative_failures s"
  by (simp_all add: execute_arbitrage_def place_buy_simps place_sell_simps request_status)












text \<open>
  Claim C6. When the evaluation of the profitability raises in status
  \<^verbatim>\<open>NOT_STARTED\<close>, the step function catches the exception: nothing escapes to the
  driver, the status stays \<^verbatim>\<open>NOT_STARTED\<close>, no order is submitted and the cumulative
  failures are unchanged.
\<close>

theorem control_task_evaluation_error:
  assumes ns: "arbitrage_status s = NOT_STARTED"
      and ev: "net_profitability_pct c s = (Inl e, s')"
  shows "control_task c s = (None, s')
       \<and> arbitrage_status s' = NOT_STARTED
       \<and> submitted s' = submitted s
       \<and> cumulative_failures s' = cumulative_failures s
       \<and> evaluation_frame s s'"
proof -
  have fr: "evaluation_frame s s'" using frame_net_profitability [of s c] ev by simp
  have "control_task c s = (None, s')"
    using ns ev by (simp add: not_started_step_eq)
  then show ?thesis using fr ns by (simp add: evaluation_frame_def)
qed




lemma demo_quote_down:
  "net_profitability_pct
     (demo_collab\<lparr>get_quote_price :=
        (\<lambda>ex tp b amt w. (Inl (CollaboratorError ''QuoteUnavailable''), Suc w))\<rparr>) demo_start
   = (Inl (CollaboratorError ''QuoteUnavailable''), demo_start\<lparr>world := 2\<rparr>)"
  by (simp add: net_profitability_pct_def get_trade_pnl_pct_def get_buy_and_sell_prices_def
        get_resulting_price_for_amount_def
        demo_collab_def demo_start_def init_def demo_config_def)

lemma demo_rate_down:
  "net_profitability_pct
     (demo_collab\<lparr>get_pair_rate :=
        (\<lambda>p w. (Inl (CollaboratorError ''RateUnavailable''), Suc w))\<rparr>) (init demo_amm_config 0)
   = (Inl (CollaboratorError ''RateUnavailable''),
      (init demo_amm_config 0)\<lparr>last_buy_price := Some 100, last_sell_price := Some 101,
                                world := 1\<rparr>)"
  by (simp add: net_profitability_pct_def get_trade_pnl_pct_def get_buy_and_sell_prices_def
        get_resulting_price_for_amount_def get_tx_cost_pct_def get_tx_cost_in_asset_def
        demo_collab_def init_def demo_amm_config_def dec_values Let_def)

theorem control_task_evaluation_error_witness:
  "arbitrage_status demo_start = NOT_STARTED
   \<and> control_task
        (demo_collab\<lparr>get_quote_price :=
           (\<lambda>ex tp b amt w. (Inl (CollaboratorError ''QuoteUnavailable''), Suc w))\<rparr>) demo_start
      = (None, demo_start\<lparr>world := 2\<rparr>)
   \<and> arbitrage_status (init demo_amm_config (0::nat)) = NOT_STARTED
   \<and> control_task
        (demo_collab\<lparr>get_pair_rate :=
           (\<lambda>p w. (Inl (CollaboratorError ''RateUnavailable''), Suc w))\<rparr>) (init demo_amm_config 0)
      = (None, (init demo_amm_config 0)\<lparr>last_buy_price := Some 100, last_sell_price := Some 101,
                                world := 1\<rparr>)"
  using control_task_evaluation_error [OF _ demo_quote_down]
        control_task_evaluation_error [OF _ demo_rate_down]
  by (simp add: demo_start_def init_def)

section \<open>Monotonicity of the status\<close>

lemma not_started_step_cases:
  assumes "arbitrage_status s = NOT_STARTED"
  shows "\<exists>s'. evaluation_frame s s'
            \<and> (snd (control_task c s) = s' \<or> snd (control_task c s) = execute_arbitrage c s')"
proof -
  obtain r s' where ev: "net_profitability_pct c s = (r, s')"
    by (cases "net_profitability_pct c s")
  have fr: "evaluation_frame s s'" using frame_net_profitability [of s c] ev by simp
  have "snd (control_task c s) = s' \<or> snd (control_task c s) = execute_arbitrage c s'"
    using assms ev by (cases r) (simp_all add: not_started_step_eq)
  with fr show ?thesis by blast
qed

lemma check_order_status_cases:
  "snd (check_order_status s) = s
   \<or> snd (check_order_status s) = s\<lparr>arbitrage_status := COMPLETED, terminated := True\<rparr>"
  using check_order_status_filled [of s] check_order_status_unfilled [of s]
  by (cases "both_legs_filled s") simp_all

lemma active_step_cases:
  assumes "arbitrage_status s = ACTIVE_ARBITRAGE"
  shows "snd (control_task c s) = s
   \<or> snd (control_task c s) = s\<lparr>arbitrage_status := COMPLETED, terminated := True\<rparr>
   \<or> snd (control_task c s) = s\<lparr>arbitrage_status := FAILED, terminated := True\<rparr>"
  using assms check_order_status_cases [of s]
  by (auto simp: control_task_def terminate_control_loop_def)

lemma control_task_terminal:
  "terminal (arbitrage_status s) \<Longrightarrow> control_task c s = (None, s)"
  by (auto simp: terminal_def control_task_def)

lemma control_task_failures:
  "cumulative_failures (snd (control_task c s)) = cumulative_failures s"
proof (cases "arbitrage_status s")
  case NOT_STARTED
  then show ?thesis
    using not_started_step_cases [of s c]
    by (auto simp: evaluation_frame_def execute_arbitrage_simps)
next
  case ACTIVE_ARBITRAGE
  then show ?thesis using active_step_cases [of s c] by auto
next
  case COMPLETED
  then show ?thesis by (simp add: control_task_terminal terminal_def)
next
  case FAILED
  then show ?thesis by (simp add: control_task_terminal terminal_def)
qed

lemma control_task_rank:
  "status_rank (arbitrage_status s) \<le> status_rank (arbitrage_status (snd (control_task c s)))"
proof (cases "arbitrage_status s")
  case NOT_STARTED
  then show ?thesis by simp
next
  case ACTIVE_ARBITRAGE
  then show ?thesis using active_step_cases [of s c] by auto
next
  case COMPLETED
  then show ?thesis by (simp add: control_task_terminal terminal_def)
next
  case FAILED
  then show ?thesis by (simp add: control_task_terminal terminal_def)
qed

lemma steps_terminal:
  "terminal (arbitrage_status s) \<Longrightarrow> steps c n s = s"
  by (induction n) (simp_all add: control_task_terminal)

lemma steps_rank:
  "status_rank (arbitrage_status s) \<le> status_rank (arbitrage_status (steps c n s))"
proof (induction n arbitrary: s)
  case 0
  show ?case by simp
next
  case (Suc n)
  have "status_rank (arbitrage_status s)
          \<le> status_rank (arbitrage_status (snd (control_task c s)))"
    by (rule control_task_rank)
  also have "\<dots> \<le> status_rank (arbitrage_status (steps c n (snd (control_task c s))))"
    by (rule Suc.IH)
  finally show ?case by simp
qed

text \<open>
  Claim C5. The status is monotonic along not started, active, terminal: no invocation
  of the step function, and no sequence of invocations, moves the status backward; a run
  that has left \<^verbatim>\<open>NOT_STARTED\<close> never returns to it; and once the status is
  \<^verbatim>\<open>COMPLETED\<close> or \<^verbatim>\<open>FAILED\<close> an invocation of the step function changes nothing.
\<close>

theorem status_monotonic:
  "status_rank (arbitrage_status s) \<le> status_rank (arbitrage_status (snd (control_task c s)))
   \<and> status_rank (arbitrage_status s) \<le> status_rank (arbitrage_status (steps c n s))
   \<and> (terminal (arbitrage_status s) \<longrightarrow>
         control_task c s = (None, s) \<and> steps c n s = s)
   \<and> (arbitrage_status s \<noteq> NOT_STARTED \<longrightarrow>
         arbitrage_status (steps c n s) \<noteq> NOT_STARTED)"
proof (intro conjI impI)
  show "status_rank (arbitrage_status s)
          \<le> status_rank (arbitrage_status (snd (control_task c s)))"
    by (rule control_task_rank)
  show "status_rank (arbitrage_status s) \<le> status_rank (arbitrage_status (steps c n s))"
    by (rule steps_rank)
  show "control_task c s = (None, s)" if "terminal (arbitrage_status s)"
    using that by (rule control_task_terminal)
  show "steps c n s = s" if "terminal (arbitrage_status s)"
    using that by (rule steps_terminal)
  show "arbitrage_status (steps c n s) \<noteq> NOT_STARTED"
    if "arbitrage_status s \<noteq> NOT_STARTED"
  proof -
    have "0 < status_rank (arbitrage_status s)"
      using that by (cases "arbitrage_status s") simp_all
    then have "0 < status_rank (arbitrage_status (steps c n s))"
      using steps_rank [of s c n] by simp
    then show ?thesis by (cases "arbitrage_status (steps c n s)") simp_all
  qed
qed

theorem status_monotonic_witness:
  "terminal (arbitrage_status demo_completed)
   \<and> control_task demo_collab demo_completed = (None, demo_completed)
   \<and> steps demo_collab 5 demo_completed = demo_completed
   \<and> arbitrage_status demo_active \<noteq> NOT_STARTED
   \<and> arbitrage_status (steps demo_collab 5 demo_active) \<noteq> NOT_STARTED"
proof -
  have t: "terminal (arbitrage_status demo_completed)"
    by (simp add: demo_completed_def terminal_def)
  have a: "arbitrage_status demo_active \<noteq> NOT_STARTED"
    by (simp add: demo_active_def)
  show ?thesis
    using status_monotonic [of demo_completed demo_collab 5]
      status_monotonic [of demo_active demo_collab 5] t a
    by blast
qed

section \<open>The notification handlers\<close>

lemma failed_event_buy:
  assumes "order_id (buy_order s) = Some i"
  shows "process_order_failed_event c i s =
     s\<lparr>buy_order := fst (submit_order c (buy_request s) (world s)),
       cumulative_failures := cumulative_failures s + 1,
       submitted := submitted s @ [buy_request s],
       world := snd (submit_order c (buy_request s) (world s))\<rparr>"
  using assms
  by (simp add: process_order_failed_event_def place_buy_arbitrage_order_def place_order_def
       Let_def split: prod.splits)

lemma failed_event_sell:
  assumes "order_id (buy_order s) \<noteq> Some i" "order_id (sell_order s) = Some i"
  shows "process_order_failed_event c i s =
     s\<lparr>sell_order := fst (submit_order c (sell_request s) (world s)),
       cumulative_failures := cumulative_failures s + 1,
       submitted := submitted s @ [sell_request s],
       world := snd (submit_order c (sell_request s) (world s))\<rparr>"
  using assms
  by (simp add: process_order_failed_event_def place_sell_arbitrage_order_def place_order_def
       Let_def split: prod.splits)

lemma failed_event_other:
  assumes "order_id (buy_order s) \<noteq> Some i" "order_id (sell_order s) \<noteq> Some i"
  shows "process_order_failed_event c i s = s"
  using assms by (simp add: process_order_failed_event_def)

lemma failed_event_failures:
  "cumulative_failures s \<le> cumulative_failures (process_order_failed_event c i s)"
proof (cases "order_id (buy_order s) = Some i")
  case True
  then show ?thesis by (simp add: failed_event_buy)
next
  case nb: False
  show ?thesis
  proof (cases "order_id (sell_order s) = Some i")
    case True
    with nb show ?thesis by (simp add: failed_event_sell)
  next
    case False
    with nb show ?thesis by (simp add: failed_event_other)
  qed
qed

lemma created_event_failures:
  "cumulative_failures (process_order_created_event c i s) = cumulative_failures s"
  by (simp add: process_order_created_event_def)

lemma apply_operation_failures:
  "cumulative_failures s \<le> cumulative_failures (apply_operation c x s)"
proof (cases x)
  case Tick
  then show ?thesis by (simp add: control_task_failures)
next
  case (OrderCreated i)
  then show ?thesis by (simp add: created_event_failures)
next
  case (OrderFailed i)
  then show ?thesis by (simp add: failed_event_failures)
qed

lemma run_operations_failures:
  "cumulative_failures s \<le> cumulative_failures (run_operations c xs s)"
proof (induction xs arbitrary: s)
  case Nil
  show ?case by simp
next
  case (Cons x xs)
  have "cumulative_failures s \<le> cumulative_failures (apply_operation c x s)"
    by (rule apply_operation_failures)
  also have "\<dots> \<le> cumulative_failures (run_operations c xs (apply_operation c x s))"
    by (rule Cons.IH)
  finally show ?case by simp
qed


lemma failed_event_status:
  "process_order_failed_event c i (s\<lparr>arbitrage_status := st\<rparr>)
     = (process_order_failed_event c i s)\<lparr>arbitrage_status := st\<rparr>"
  by (simp add: process_order_failed_event_def place_buy_arbitrage_order_def
        place_sell_arbitrage_order_def place_order_def buy_request_def sell_request_def
        Let_def split: prod.splits)

text \<open>
  Claim C3. An order-failed notification whose identifier is the buy leg's resubmits the
  buy leg: the order handed to the venue names the buying venue and pair, side buy and
  the configured amount, the buy leg becomes what that submission returns, the
  cumulative failures grow by exactly one, and nothing else of the run changes, the sell
  leg in particular. One whose identifier is the sell leg's, and not the buy leg's, does
  the same for the sell leg and leaves the buy leg as it was. No operation, and no
  sequence of operations, lowers the cumulative failures.
\<close>

theorem process_order_failed_event_leg:
  "(order_id (buy_order s) = Some i \<longrightarrow>
      process_order_failed_event c i s =
        s\<lparr>buy_order := fst (submit_order c
            \<lparr> req_connector_name = exchange (buying_market s),
               req_trading_pair = trading_pair (buying_market s),
               req_order_type = MARKET, req_side = BUY,
               req_amount = order_amount s, req_price = last_buy_price s \<rparr>
            (world s)),
          cumulative_failures := cumulative_failures s + 1,
          submitted := submitted s @
            [\<lparr> req_connector_name = exchange (buying_market s),
               req_trading_pair = trading_pair (buying_market s),
               req_order_type = MARKET, req_side = BUY,
               req_amount = order_amount s, req_price = last_buy_price s \<rparr>],
          world := snd (submit_order c
            \<lparr> req_connector_name = exchange (buying_market s),
               req_trading_pair = trading_pair (buying_market s),
               req_order_type = MARKET, req_side = BUY,
               req_amount = order_amount s, req_price = last_buy_price s \<rparr>
            (world s))\<rparr>
    \<and> sell_order (process_order_failed_event c i s) = sell_order s
    \<and> cumulative_failures (process_order_failed_event c i s) = cumulative_failures s + 1)
   \<and> (order_id (buy_order s) \<noteq> Some i \<and> order_id (sell_order s) = Some i \<longrightarrow>
      process_order_failed_event c i s =
        s\<lparr>sell_order := fst (submit_order c
            \<lparr> req_connector_name = exchange (selling_market s),
               req_trading_pair = trading_pair (selling_market s),
               req_order_type = MARKET, req_side = SELL,
               req_amount = order_amount s, req_price = last_sell_price s \<rparr>
            (world s)),
          cumulative_failures := cumulative_failures s + 1,
          submitted := submitted s @
            [\<lparr> req_connector_name = exchange (selling_market s),
               req_trading_pair = trading_pair (selling_market s),
               req_order_type = MARKET, req_side = SELL,
               req_amount = order_amount s, req_price = last_sell_price s \<rparr>],
          world := snd (submit_order c
            \<lparr> req_connector_name = exchange (selling_market s),
               req_trading_pair = trading_pair (selling_market s),
               req_order_type = MARKET, req_side = SELL,
               req_amount = order_amount s, req_price = last_sell_price s \<rparr>
            (world s))\<rparr>
    \<and> buy_order (process_order_failed_event c i s) = buy_order s
    \<and> cumulative_failures (process_order_failed_event c i s) = cumulative_failures s + 1)
   \<and> cumulative_failures s \<le> cumulative_failures (apply_operation c x s)
   \<and> cumulative_failures s \<le> cumulative_failures (run_operations c xs s)"
proof (intro conjI impI)
  assume b: "order_id (buy_order s) = Some i"
  show "process_order_failed_event c i s =
        s\<lparr>buy_order := fst (submit_order c
            \<lparr> req_connector_name = exchange (buying_market s),
               req_trading_pair = trading_pair (buying_market s),
               req_order_type = MARKET, req_side = BUY,
               req_amount = order_amount s, req_price = last_buy_price s \<rparr>
            (world s)),
          cumulative_failures := cumulative_failures s + 1,
          submitted := submitted s @
            [\<lparr> req_connector_name = exchange (buying_market s),
               req_trading_pair = trading_pair (buying_market s),
               req_order_type = MARKET, req_side = BUY,
               req_amount = order_amount s, req_price = last_buy_price s \<rparr>],
          world := snd (submit_order c
            \<lparr> req_connector_name = exchange (buying_market s),
               req_trading_pair = trading_pair (buying_market s),
               req_order_type = MARKET, req_side = BUY,
               req_amount = order_amount s, req_price = last_buy_price s \<rparr>
            (world s))\<rparr>"
    by (simp add: failed_event_buy [OF b] buy_request_def)
  show "sell_order (process_order_failed_event c i s) = sell_order s"
    by (simp add: failed_event_buy [OF b])
  show "cumulative_failures (process_order_failed_event c i s) = cumulative_failures s + 1"
    by (simp add: failed_event_buy [OF b])
next
  assume "order_id (buy_order s) \<noteq> Some i \<and> order_id (sell_order s) = Some i"
  then have nb: "order_id (buy_order s) \<noteq> Some i" and e: "order_id (sell_order s) = Some i"
    by simp_all
  show "process_order_failed_event c i s =
        s\<lparr>sell_order := fst (submit_order c
            \<lparr> req_connector_name = exchange (selling_market s),
               req_trading_pair = trading_pair (selling_market s),
               req_order_type = MARKET, req_side = SELL,
               req_amount = order_amount s, req_price = last_sell_price s \<rparr>
            (world s)),
          cumulative_failures := cumulative_failures s + 1,
          submitted := submitted s @
            [\<lparr> req_connector_name = exchange (selling_market s),
               req_trading_pair = trading_pair (selling_market s),
               req_order_type = MARKET, req_side = SELL,
               req_amount = order_amount s, req_price = last_sell_price s \<rparr>],
          world := snd (submit_order c
            \<lparr> req_connector_name = exchange (selling_market s),
               req_trading_pair = trading_pair (selling_market s),
               req_order_type = MARKET, req_side = SELL,
               req_amount = order_amount s, req_price = last_sell_price s \<rparr>
            (world s))\<rparr>"
    by (simp add: failed_event_sell [OF nb e] sell_request_def)
  show "buy_order (process_order_failed_event c i s) = buy_order s"
    by (simp add: failed_event_sell [OF nb e])
  show "cumulative_failures (process_order_failed_event c i s) = cumulative_failures s + 1"
    by (simp add: failed_event_sell [OF nb e])
next
  show "cumulative_failures s \<le> cumulative_failures (apply_operation c x s)"
    by (rule apply_operation_failures)
  show "cumulative_failures s \<le> cumulative_failures (run_operations c xs s)"
    by (rule run_operations_failures)
qed

lemma demo_active_simps:
  "order_id (buy_order demo_active) = Some ''buy-''"
  "order_id (sell_order demo_active) = Some ''sell-i''"
  "submitted demo_active = []" "cumulative_failures demo_active = 0"
  "order_amount demo_active = 10" "world demo_active = 2"
  "buying_market demo_active = \<lparr> exchange = ''binance'', trading_pair = ''ETH-USDT'' \<rparr>"
  "selling_market demo_active = \<lparr> exchange = ''kucoin'', trading_pair = ''ETH-USDT'' \<rparr>"
  "last_buy_price demo_active = Some 100" "last_sell_price demo_active = Some 101"
  by (simp_all add: demo_active_def init_def demo_config_def)

lemma demo_submit:
  "submit_order demo_collab
     \<lparr> req_connector_name = a, req_trading_pair = b, req_order_type = ot, req_side = BUY,
       req_amount = q, req_price = pr \<rparr> 2
   = (\<lparr> order_id = Some ''buy-ii'', order = None \<rparr>, 3)"
  "submit_order demo_collab
     \<lparr> req_connector_name = a, req_trading_pair = b, req_order_type = ot, req_side = SELL,
       req_amount = q, req_price = pr \<rparr> 2
   = (\<lparr> order_id = Some ''sell-ii'', order = None \<rparr>, 3)"
  by (simp_all add: demo_collab_def numeral_2_eq_2)

theorem process_order_failed_event_leg_witness:
  "order_id (buy_order demo_active) = Some ''buy-''
   \<and> process_order_failed_event demo_collab ''buy-'' demo_active =
        demo_active
          \<lparr>buy_order := \<lparr> order_id = Some ''buy-ii'', order = None \<rparr>,
           cumulative_failures := 1,
           submitted :=
             [\<lparr> req_connector_name = ''binance'', req_trading_pair = ''ETH-USDT'',
                 req_order_type = MARKET, req_side = BUY, req_amount = 10,
                 req_price = Some 100 \<rparr>],
           world := 3\<rparr>
   \<and> order_id (buy_order demo_active) \<noteq> Some ''sell-i''
   \<and> order_id (sell_order demo_active) = Some ''sell-i''
   \<and> process_order_failed_event demo_collab ''sell-i'' demo_active =
        demo_active
          \<lparr>sell_order := \<lparr> order_id = Some ''sell-ii'', order = None \<rparr>,
           cumulative_failures := 1,
           submitted :=
             [\<lparr> req_connector_name = ''kucoin'', req_trading_pair = ''ETH-USDT'',
                 req_order_type = MARKET, req_side = SELL, req_amount = 10,
                 req_price = Some 101 \<rparr>],
           world := 3\<rparr>"
  using process_order_failed_event_leg
          [where s = demo_active and i = "''buy-''" and c = demo_collab and x = Tick
             and xs = "[]"]
    process_order_failed_event_leg
          [where s = demo_active and i = "''sell-i''" and c = demo_collab and x = Tick
             and xs = "[]"]
  by (simp add: demo_active_simps demo_submit)

text \<open>
  Claim C10. The order-failed handler neither reads nor writes the status: run on the
  same run with any other status it does the same and leaves that status in place. In
  every status, the terminal ones included, a notification that matches a leg resubmits
  that leg: the order of that leg's venue, pair and side is handed to the venue, the leg
  becomes what the submission returns, and the cumulative failures grow by one.
\<close>

theorem process_order_failed_event_any_status:
  "process_order_failed_event c i (s\<lparr>arbitrage_status := st\<rparr>)
     = (process_order_failed_event c i s)\<lparr>arbitrage_status := st\<rparr>
   \<and> arbitrage_status (process_order_failed_event c i s) = arbitrage_status s
   \<and> (order_id (buy_order s) = Some i \<longrightarrow>
      process_order_failed_event c i (s\<lparr>arbitrage_status := st\<rparr>) =
        s\<lparr>arbitrage_status := st,
          buy_order := fst (submit_order c
            \<lparr> req_connector_name = exchange (buying_market s),
               req_trading_pair = trading_pair (buying_market s),
               req_order_type = MARKET, req_side = BUY,
               req_amount = order_amount s, req_price = last_buy_price s \<rparr>
            (world s)),
          cumulative_failures := cumulative_failures s + 1,
          submitted := submitted s @
            [\<lparr> req_connector_name = exchange (buying_market s),
               req_trading_pair = trading_pair (buying_market s),
               req_order_type = MARKET, req_side = BUY,
               req_amount = order_amount s, req_price = last_buy_price s \<rparr>],
          world := snd (submit_order c
            \<lparr> req_connector_name = exchange (buying_market s),
               req_trading_pair = trading_pair (buying_market s),
               req_order_type = MARKET, req_side = BUY,
               req_amount = order_amount s, req_price = last_buy_price s \<rparr>
            (world s))\<rparr>)
   \<and> (order_id (buy_order s) \<noteq> Some i \<and> order_id (sell_order s) = Some i \<longrightarrow>
      process_order_failed_event c i (s\<lparr>arbitrage_status := st\<rparr>) =
        s\<lparr>arbitrage_status := st,
          sell_order := fst (submit_order c
            \<lparr> req_connector_name = exchange (selling_market s),
               req_trading_pair = trading_pair (selling_market s),
               req_order_type = MARKET, req_side = SELL,
               req_amount = order_amount s, req_price = last_sell_price s \<rparr>
            (world s)),
          cumulative_failures := cumulative_failures s + 1,
          submitted := submitted s @
            [\<lparr> req_connector_name = exchange (selling_market s),
               req_trading_pair = trading_pair (selling_market s),
               req_order_type = MARKET, req_side = SELL,
               req_amount = order_amount s, req_price = last_sell_price s \<rparr>],
          world := snd (submit_order c
            \<lparr> req_connector_name = exchange (selling_market s),
               req_trading_pair = trading_pair (selling_market s),
               req_order_type = MARKET, req_side = SELL,
               req_amount = order_amount s, req_price = last_sell_price s \<rparr>
            (world s))\<rparr>)"
proof (intro conjI impI)
  show "process_order_failed_event c i (s\<lparr>arbitrage_status := st\<rparr>)
     = (process_order_failed_event c i s)\<lparr>arbitrage_status := st\<rparr>"
    by (rule failed_event_status)
  show "arbitrage_status (process_order_failed_event c i s) = arbitrage_status s"
    by (simp add: process_order_failed_event_def place_buy_simps place_sell_simps Let_def)
next
  assume b: "order_id (buy_order s) = Some i"
  show "process_order_failed_event c i (s\<lparr>arbitrage_status := st\<rparr>) =
        s\<lparr>arbitrage_status := st,
          buy_order := fst (submit_order c
            \<lparr> req_connector_name = exchange (buying_market s),
               req_trading_pair = trading_pair (buying_market s),
               req_order_type = MARKET, req_side = BUY,
               req_amount = order_amount s, req_price = last_buy_price s \<rparr>
            (world s)),
          cumulative_failures := cumulative_failures s + 1,
          submitted := submitted s @
            [\<lparr> req_connector_name = exchange (buying_market s),
               req_trading_pair = trading_pair (buying_market s),
               req_order_type = MARKET, req_side = BUY,
               req_amount = order_amount s, req_price = last_buy_price s \<rparr>],
          world := snd (submit_order c
            \<lparr> req_connector_name = exchange (buying_market s),
               req_trading_pair = trading_pair (buying_market s),
               req_order_type = MARKET, req_side = BUY,
               req_amount = order_amount s, req_price = last_buy_price s \<rparr>
            (world s))\<rparr>"
    by (simp add: failed_event_status failed_event_buy [OF b] buy_request_def)
next
  assume "order_id (buy_order s) \<noteq> Some i \<and> order_id (sell_order s) = Some i"
  then have nb: "order_id (buy_order s) \<noteq> Some i" and e: "order_id (sell_order s) = Some i"
    by simp_all
  show "process_order_failed_event c i (s\<lparr>arbitrage_status := st\<rparr>) =
        s\<lparr>arbitrage_status := st,
          sell_order := fst (submit_order c
            \<lparr> req_connector_name = exchange (selling_market s),
               req_trading_pair = trading_pair (selling_market s),
               req_order_type = MARKET, req_side = SELL,
               req_amount = order_amount s, req_price = last_sell_price s \<rparr>
            (world s)),
          cumulative_failures := cumulative_failures s + 1,
          submitted := submitted s @
            [\<lparr> req_connector_name = exchange (selling_market s),
               req_trading_pair = trading_pair (selling_market s),
               req_order_type = MARKET, req_side = SELL,
               req_amount = order_amount s, req_price = last_sell_price s \<rparr>],
          world := snd (submit_order c
            \<lparr> req_connector_name = exchange (selling_market s),
               req_trading_pair = trading_pair (selling_market s),
               req_order_type = MARKET, req_side = SELL,
               req_amount = order_amount s, req_price = last_sell_price s \<rparr>
            (world s))\<rparr>"
    by (simp add: failed_event_status failed_event_sell [OF nb e] sell_request_def)
qed

lemma demo_filled_simps:
  "order_id (buy_order demo_filled) = Some ''buy-''"
  "order_id (sell_order demo_filled) = Some ''sell-i''"
  "submitted demo_filled = []" "cumulative_failures demo_filled = 0"
  "order_amount demo_filled = 10" "world demo_filled = 2"
  "buying_market demo_filled = \<lparr> exchange = ''binance'', trading_pair = ''ETH-USDT'' \<rparr>"
  "selling_market demo_filled = \<lparr> exchange = ''kucoin'', trading_pair = ''ETH-USDT'' \<rparr>"
  "last_buy_price demo_filled = Some 100" "last_sell_price demo_filled = Some 101"
  by (simp_all add: demo_filled_def demo_active_def init_def demo_config_def)

theorem process_order_failed_event_any_status_witness:
  "order_id (buy_order demo_filled) = Some ''buy-''
   \<and> process_order_failed_event demo_collab ''buy-'' (demo_filled\<lparr>arbitrage_status := COMPLETED\<rparr>) =
        demo_filled
          \<lparr>arbitrage_status := COMPLETED,
           buy_order := \<lparr> order_id = Some ''buy-ii'', order = None \<rparr>,
           cumulative_failures := 1,
           submitted :=
             [\<lparr> req_connector_name = ''binance'', req_trading_pair = ''ETH-USDT'',
                 req_order_type = MARKET, req_side = BUY, req_amount = 10,
                 req_price = Some 100 \<rparr>],
           world := 3\<rparr>
   \<and> order_id (buy_order demo_filled) \<noteq> Some ''sell-i''
   \<and> order_id (sell_order demo_filled) = Some ''sell-i''
   \<and> process_order_failed_event demo_collab ''sell-i'' (demo_filled\<lparr>arbitrage_status := FAILED\<rparr>) =
        demo_filled
          \<lparr>arbitrage_status := FAILED,
           sell_order := \<lparr> order_id = Some ''sell-ii'', order = None \<rparr>,
           cumulative_failures := 1,
           submitted :=
             [\<lparr> req_connector_name = ''kucoin'', req_trading_pair = ''ETH-USDT'',
                 req_order_type = MARKET, req_side = SELL, req_amount = 10,
                 req_price = Some 101 \<rparr>],
           world := 3\<rparr>"
  using process_order_failed_event_any_status
          [where c = demo_collab and i = "''buy-''" and s = demo_filled and st = COMPLETED,
           THEN conjunct2, THEN conjunct2, THEN conjunct1]
    process_order_failed_event_any_status
          [where c = demo_collab and i = "''sell-i''" and s = demo_filled and st = FAILED,
           THEN conjunct2, THEN conjunct2, THEN conjunct2]
  by (simp add: demo_filled_simps demo_submit)

section \<open>The status report\<close>

lemma extend_twice:
  "extend_with_str (map (\<lambda>ch. [ch]) a) b = map (\<lambda>ch. [ch]) (a @ b)"
  by (simp add: extend_with_str_def)

lemma extend_once: "extend_with_str [] a = map (\<lambda>ch. [ch]) a"
  by (simp add: extend_with_str_def)

lemma join_chars_Cons:
  "join sep (map (\<lambda>ch. [ch]) (x # y # ys)) = x # sep @ join sep (map (\<lambda>ch. [ch]) (y # ys))"
  by simp

lemma join_chars_length:
  "length (join [n] (map (\<lambda>ch. [ch]) cs)) = 2 * length cs - 1"
proof (induction cs)
  case Nil
  show ?case by simp
next
  case (Cons x xs)
  then show ?case by (cases xs) simp_all
qed

lemma join_chars_odd:
  "2 * k + 1 < length (join [n] (map (\<lambda>ch. [ch]) cs))
     \<Longrightarrow> join [n] (map (\<lambda>ch. [ch]) cs) ! (2 * k + 1) = n"
proof (induction cs arbitrary: k)
  case Nil
  then show ?case by simp
next
  case (Cons x xs)
  show ?case
  proof (cases xs)
    case Nil
    with Cons.prems show ?thesis by simp
  next
    case (Cons y ys)
    show ?thesis
    proof (cases k)
      case 0
      with Cons show ?thesis by simp
    next
      case (Suc j)
      have "2 * j + 1 < length (join [n] (map (\<lambda>ch. [ch]) xs))"
        using Cons.prems Cons Suc by simp
      then have "join [n] (map (\<lambda>ch. [ch]) xs) ! (2 * j + 1) = n"
        by (rule Cons.IH)
      then show ?thesis using Cons Suc by simp
    qed
  qed
qed

lemma join_chars_adjacent:
  assumes "Suc k < length (join [n] (map (\<lambda>ch. [ch]) cs))"
  shows "join [n] (map (\<lambda>ch. [ch]) cs) ! k = n \<or> join [n] (map (\<lambda>ch. [ch]) cs) ! Suc k = n"
proof (cases "even k")
  case True
  then obtain j where j: "k = 2 * j" by (auto elim: evenE)
  have "join [n] (map (\<lambda>ch. [ch]) cs) ! (2 * j + 1) = n"
    using assms j by (intro join_chars_odd) simp
  then show ?thesis using j by simp
next
  case False
  then obtain j where j: "k = 2 * j + 1" by (auto elim: oddE)
  have "join [n] (map (\<lambda>ch. [ch]) cs) ! (2 * j + 1) = n"
    using assms j by (intro join_chars_odd) simp
  then show ?thesis using j by simp
qed

lemma status_text_prefix:
  "\<exists>rest. status_text fmt s bp sp t x n = newline @ ''Buy:'' @ rest"
  by (simp add: status_text_def)

lemma report_with_profit:
  "\<exists>bp sp t x n rest.
     join nl (map f (status_text fmt s a b c d e @ r))
       = join nl (map f (status_text fmt s bp sp t x n @ rest))"
  by blast

lemma report_without_profit:
  "\<exists>bp sp t x n rest.
     join nl (map f (status_text fmt s a b c d e))
       = join nl (map f (status_text fmt s bp sp t x n @ rest))"
  by (metis append_Nil2)

lemma to_format_status_cases:
  assumes "to_format_status fmt c s = Inr out"
  shows "\<exists>bp sp t x n rest.
          out = join newline (map (\<lambda>ch. [ch]) (status_text fmt s bp sp t x n @ rest))"
  using assms
  by (auto simp: to_format_status_def Let_def extend_twice extend_once
        simp del: map_append
        intro: report_with_profit report_without_profit
        split: option.splits sum.splits prod.splits if_splits)

lemma to_format_status_shape:
  assumes "to_format_status fmt c s = Inr out"
  shows "\<exists>rest. out = join newline (map (\<lambda>ch. [ch]) (newline @ ''Buy:'' @ rest))"
proof -
  obtain bp sp t x n rest where
    o: "out = join newline (map (\<lambda>ch. [ch]) (status_text fmt s bp sp t x n @ rest))"
    using to_format_status_cases [OF assms] by blast
  obtain r where "status_text fmt s bp sp t x n = newline @ ''Buy:'' @ r"
    using status_text_prefix by blast
  then have "out = join newline (map (\<lambda>ch. [ch]) (newline @ ''Buy:'' @ (r @ rest)))"
    using o by simp
  then show ?thesis by blast
qed

text \<open>
  Claim C8, on what \<^verbatim>\<open>to_format_status\<close> returns. The report is meant to be a
  multi-line text naming both venues and pairs, the last prices, the percentages, the
  status and, once completed, the total profit. The source extends the list of lines
  with the text itself, so the list holds the characters of the text, and joins them
  with newlines: whenever a report is returned, it starts with a newline, a newline,
  \<open>B\<close>, a newline, \<open>u\<close>, a newline, \<open>y\<close>, a newline and a colon, and of any two
  neighbouring characters of it one is a newline. No line of the report is longer than
  one character, so no venue name, pair or number appears in it as written.
\<close>

theorem to_format_status_chars:
  assumes "to_format_status fmt c s = Inr out"
  shows "take 9 out = [CHR 0x0A, CHR 0x0A, CHR ''B'', CHR 0x0A, CHR ''u'', CHR 0x0A,
                       CHR ''y'', CHR 0x0A, CHR '':'']
       \<and> (\<forall>k. Suc k < length out \<longrightarrow> out ! k = CHR 0x0A \<or> out ! Suc k = CHR 0x0A)"
proof -
  obtain rest where o: "out = join newline (map (\<lambda>ch. [ch]) (newline @ ''Buy:'' @ rest))"
    using to_format_status_shape [OF assms] by blast
  have "take 9 out = [CHR 0x0A, CHR 0x0A, CHR ''B'', CHR 0x0A, CHR ''u'', CHR 0x0A,
                       CHR ''y'', CHR 0x0A, CHR '':'']"
    by (cases rest) (simp_all add: o newline_def)
  moreover have "out ! k = CHR 0x0A \<or> out ! Suc k = CHR 0x0A" if "Suc k < length out" for k
    using that join_chars_adjacent [of k "CHR 0x0A" "newline @ ''Buy:'' @ rest"]
    by (simp add: o newline_def)
  ultimately show ?thesis by blast
qed


lemma demo_report:
  "to_format_status demo_fmt demo_collab demo_active
     = Inr (join newline (map (\<lambda>ch. [ch])
              (status_text demo_fmt demo_active 100 101 (1 / 100) (1 / 200) (1 / 200))))"
proof -
  have "last_sell_price demo_active = Some 101" "last_buy_price demo_active = Some 100"
    "last_tx_cost demo_active = Some (1 / 20)" "order_amount demo_active = 10"
    "arbitrage_status demo_active \<noteq> COMPLETED"
    "split_hb_trading_pair demo_collab (trading_pair (buying_market demo_active))
       = Inr (''ETH'', ''USDT'')"
    by (simp_all add: demo_active_def init_def demo_config_def demo_collab_def)
  then show ?thesis
    by (simp add: to_format_status_def dec_values Let_def extend_with_str_def)
qed

theorem to_format_status_chars_witness:
  "to_format_status demo_fmt demo_collab demo_active
     = Inr (join newline (map (\<lambda>ch. [ch])
              (status_text demo_fmt demo_active 100 101 (1 / 100) (1 / 200) (1 / 200))))
   \<and> take 9 (join newline (map (\<lambda>ch. [ch])
              (status_text demo_fmt demo_active 100 101 (1 / 100) (1 / 200) (1 / 200))))
       = [CHR 0x0A, CHR 0x0A, CHR ''B'', CHR 0x0A, CHR ''u'', CHR 0x0A,
          CHR ''y'', CHR 0x0A, CHR '':'']
   \<and> take 5 (status_text demo_fmt demo_active 100 101 (1 / 100) (1 / 200) (1 / 200))
       = [CHR 0x0A, CHR ''B'', CHR ''u'', CHR ''y'', CHR '':'']"
  using to_format_status_chars [OF demo_report]
  by (simp add: demo_report) (simp add: status_text_def newline_def)

section \<open>Profit and loss\<close>

lemma net_pnl_steps:
  assumes "arbitrage_status s = COMPLETED"
    and "order (sell_order s) = Some so" "order (buy_order s) = Some bo"
    and "dec_mul (executed_amount so) (average_price so) = Inr sq"
    and "dec_mul (executed_amount bo) (average_price bo) = Inr bq"
    and "dec_add (cum_fee_quote bo) (cum_fee_quote so) = Inr fees"
    and "dec_sub sq bq = Inr d"
  shows "net_pnl s = dec_sub d fees"
  using assms by (simp add: net_pnl_def)

lemma net_pnl_absent:
  assumes "arbitrage_status s = COMPLETED"
    and "order (sell_order s) = None \<or> order (buy_order s) = None"
  shows "isl (net_pnl s)" and "isl (net_pnl_pct s)"
proof -
  show "isl (net_pnl s)"
    using assms by (auto simp: net_pnl_def split: option.splits sum.splits)
  then show "isl (net_pnl_pct s)"
    using assms by (auto simp: net_pnl_pct_def split: option.splits sum.splits)
qed

text \<open>
  Claim C4, as the code has it. In status \<^verbatim>\<open>COMPLETED\<close>, with both snapshots
  present, the net profit is the sell leg's executed amount times its average price,
  minus the buy leg's executed amount times its average price, minus the sum of the two
  cumulative fees, where each product, sum and difference is a decimal operation; it is
  that value exactly whenever no operation rounds. The net profit percentage is the
  decimal quotient of the net profit and the buy leg's executed amount. With a snapshot
  absent both raise. In every other status both are exactly zero.
\<close>

theorem net_pnl_completed:
  "(arbitrage_status s = COMPLETED \<and> order (sell_order s) = Some so
      \<and> order (buy_order s) = Some bo
      \<and> dec_mul (executed_amount so) (average_price so) = Inr sq
      \<and> dec_mul (executed_amount bo) (average_price bo) = Inr bq
      \<and> dec_add (cum_fee_quote bo) (cum_fee_quote so) = Inr fees
      \<and> dec_sub sq bq = Inr d \<longrightarrow>
      net_pnl s = dec_sub d fees
    \<and> (dec_sub d fees = Inr p \<longrightarrow> net_pnl_pct s = dec_div p (executed_amount bo)))
   \<and> (arbitrage_status s = COMPLETED \<and> order (sell_order s) = Some so
      \<and> order (buy_order s) = Some bo
      \<and> dec_round (executed_amount so * average_price so)
            = Inr (executed_amount so * average_price so)
      \<and> dec_round (executed_amount bo * average_price bo)
            = Inr (executed_amount bo * average_price bo)
      \<and> dec_round (cum_fee_quote bo + cum_fee_quote so)
            = Inr (cum_fee_quote bo + cum_fee_quote so)
      \<and> dec_round (executed_amount so * average_price so
                     - executed_amount bo * average_price bo)
            = Inr (executed_amount so * average_price so
                     - executed_amount bo * average_price bo)
      \<and> dec_round (executed_amount so * average_price so
                     - executed_amount bo * average_price bo
                     - (cum_fee_quote bo + cum_fee_quote so))
            = Inr (executed_amount so * average_price so
                     - executed_amount bo * average_price bo
                     - (cum_fee_quote bo + cum_fee_quote so)) \<longrightarrow>
      net_pnl s = Inr (executed_amount so * average_price so
                        - executed_amount bo * average_price bo
                        - (cum_fee_quote bo + cum_fee_quote so))
    \<and> net_pnl_pct s = dec_div (executed_amount so * average_price so
                                 - executed_amount bo * average_price bo
                                 - (cum_fee_quote bo + cum_fee_quote so))
                                (executed_amount bo))
   \<and> (arbitrage_status s = COMPLETED
      \<and> (order (sell_order s) = None \<or> order (buy_order s) = None) \<longrightarrow>
      isl (net_pnl s) \<and> isl (net_pnl_pct s))
   \<and> (arbitrage_status s \<noteq> COMPLETED \<longrightarrow> net_pnl s = Inr 0 \<and> net_pnl_pct s = Inr 0)"
proof (intro conjI impI)
  assume h: "arbitrage_status s = COMPLETED \<and> order (sell_order s) = Some so
      \<and> order (buy_order s) = Some bo
      \<and> dec_mul (executed_amount so) (average_price so) = Inr sq
      \<and> dec_mul (executed_amount bo) (average_price bo) = Inr bq
      \<and> dec_add (cum_fee_quote bo) (cum_fee_quote so) = Inr fees
      \<and> dec_sub sq bq = Inr d"
  then show n: "net_pnl s = dec_sub d fees"
    using net_pnl_steps [of s so bo sq bq fees d] by blast
  show "net_pnl_pct s = dec_div p (executed_amount bo)" if "dec_sub d fees = Inr p"
    using that n h by (simp add: net_pnl_pct_def)
next
  assume h: "arbitrage_status s = COMPLETED \<and> order (sell_order s) = Some so
      \<and> order (buy_order s) = Some bo
      \<and> dec_round (executed_amount so * average_price so)
            = Inr (executed_amount so * average_price so)
      \<and> dec_round (executed_amount bo * average_price bo)
            = Inr (executed_amount bo * average_price bo)
      \<and> dec_round (cum_fee_quote bo + cum_fee_quote so)
            = Inr (cum_fee_quote bo + cum_fee_quote so)
      \<and> dec_round (executed_amount so * average_price so
                     - executed_amount bo * average_price bo)
            = Inr (executed_amount so * average_price so
                     - executed_amount bo * average_price bo)
      \<and> dec_round (executed_amount so * average_price so
                     - executed_amount bo * average_price bo
                     - (cum_fee_quote bo + cum_fee_quote so))
            = Inr (executed_amount so * average_price so
                     - executed_amount bo * average_price bo
                     - (cum_fee_quote bo + cum_fee_quote so))"
  then show n: "net_pnl s = Inr (executed_amount so * average_price so
                        - executed_amount bo * average_price bo
                        - (cum_fee_quote bo + cum_fee_quote so))"
    by (simp add: net_pnl_def dec_mul_def dec_add_def dec_sub_def)
  show "net_pnl_pct s = dec_div (executed_amount so * average_price so
                                 - executed_amount bo * average_price bo
                                 - (cum_fee_quote bo + cum_fee_quote so))
                                (executed_amount bo)"
    using n h by (simp add: net_pnl_pct_def)
next
  assume h: "arbitrage_status s = COMPLETED
      \<and> (order (sell_order s) = None \<or> order (buy_order s) = None)"
  then show "isl (net_pnl s)" using net_pnl_absent(1) [of s] by blast
  from h show "isl (net_pnl_pct s)" using net_pnl_absent(2) [of s] by blast
next
  assume "arbitrage_status s \<noteq> COMPLETED"
  then show "net_pnl s = Inr 0" "net_pnl_pct s = Inr 0"
    by (simp_all add: net_pnl_def net_pnl_pct_def)
qed

lemma demo_completed_legs:
  "arbitrage_status demo_completed = COMPLETED"
  "order (sell_order demo_completed) = Some demo_sell_fill"
  "order (buy_order demo_completed) = Some demo_buy_fill"
  "arbitrage_status demo_active \<noteq> COMPLETED"
  by (simp_all add: demo_completed_def demo_filled_def demo_active_def)

lemma demo_thirds_legs:
  "arbitrage_status demo_thirds = COMPLETED"
  "order (sell_order demo_thirds)
     = Some \<lparr> executed_amount = 3, average_price = 101, cum_fee_quote = 1, is_filled = True \<rparr>"
  "order (buy_order demo_thirds)
     = Some \<lparr> executed_amount = 3, average_price = 100, cum_fee_quote = 0, is_filled = True \<rparr>"
  by (simp_all add: demo_thirds_def demo_completed_def)

lemma demo_refilled:
  "run_operations demo_collab [Tick, OrderFailed ''buy-''] demo_filled
     = demo_completed
         \<lparr>buy_order := \<lparr> order_id = Some ''buy-ii'', order = None \<rparr>,
          cumulative_failures := 1,
          submitted :=
             [\<lparr> req_connector_name = ''binance'', req_trading_pair = ''ETH-USDT'',
                 req_order_type = MARKET, req_side = BUY, req_amount = 10,
                 req_price = Some 100 \<rparr>],
          world := 3\<rparr>"
proof -
  have f: "arbitrage_status demo_filled = ACTIVE_ARBITRAGE"
      "\<not> max_retries demo_filled < cumulative_failures demo_filled"
      "both_legs_filled demo_filled"
    by (simp_all add: demo_filled_def demo_active_def init_def demo_config_def
          both_legs_filled_def demo_buy_fill_def demo_sell_fill_def)
  have t: "snd (control_task demo_collab demo_filled) = demo_completed"
    using f by (simp add: control_task_def check_order_status_filled demo_completed_def)
  have c: "order_id (buy_order demo_completed) = Some ''buy-''"
    by (simp add: demo_completed_def demo_filled_def)
  show ?thesis
    by (simp add: t failed_event_buy [OF c] buy_request_def demo_submit)
       (simp add: demo_completed_def demo_filled_simps demo_submit)
qed

theorem net_pnl_completed_witness:
  "arbitrage_status demo_completed = COMPLETED
   \<and> order (buy_order demo_completed)
       = Some \<lparr> executed_amount = 10, average_price = 100, cum_fee_quote = 1,
                is_filled = True \<rparr>
   \<and> order (sell_order demo_completed)
       = Some \<lparr> executed_amount = 10, average_price = 101, cum_fee_quote = 1,
                is_filled = True \<rparr>
   \<and> net_pnl demo_completed = Inr 8
   \<and> net_pnl_pct demo_completed = Inr (8 / 10)
   \<and> dec_round (10 * 101 - 10 * 100 - (1 + 1)) = Inr (10 * 101 - 10 * 100 - (1 + 1))
   \<and> net_pnl demo_completed = Inr (10 * 101 - 10 * 100 - (1 + 1))
   \<and> order (buy_order (run_operations demo_collab [Tick, OrderFailed ''buy-''] demo_filled))
       = None
   \<and> isl (net_pnl (run_operations demo_collab [Tick, OrderFailed ''buy-''] demo_filled))
   \<and> isl (net_pnl_pct (run_operations demo_collab [Tick, OrderFailed ''buy-''] demo_filled))
   \<and> arbitrage_status demo_active \<noteq> COMPLETED
   \<and> net_pnl demo_active = Inr 0
   \<and> net_pnl_pct demo_active = Inr 0"
proof -
  have x: "dec_round (10 * 101 - 10 * 100 - (1 + 1)) = Inr (10 * 101 - 10 * 100 - (1 + 1))"
    by (simp add: dec_eval)
  have a2: "net_pnl demo_completed = Inr (10 * 101 - 10 * 100 - (1 + 1))"
    using net_pnl_completed
      [where s = demo_completed and so = demo_sell_fill and bo = demo_buy_fill,
       THEN conjunct2, THEN conjunct1]
    by (simp add: demo_completed_legs demo_buy_fill_def demo_sell_fill_def dec_eval)
  have r: "arbitrage_status (run_operations demo_collab [Tick, OrderFailed ''buy-''] demo_filled)
             = COMPLETED"
      "order (buy_order (run_operations demo_collab [Tick, OrderFailed ''buy-''] demo_filled))
             = None"
    by (subst demo_refilled, simp add: demo_completed_legs)+
  have a3: "isl (net_pnl (run_operations demo_collab [Tick, OrderFailed ''buy-''] demo_filled))
     \<and> isl (net_pnl_pct (run_operations demo_collab [Tick, OrderFailed ''buy-''] demo_filled))"
    using net_pnl_completed
      [where s = "run_operations demo_collab [Tick, OrderFailed ''buy-''] demo_filled",
       THEN conjunct2, THEN conjunct2, THEN conjunct1] r
    by blast
  have a: "net_pnl demo_completed = Inr 8 \<and> net_pnl_pct demo_completed = Inr (8 / 10)"
    using net_pnl_completed
      [where s = demo_completed and so = demo_sell_fill and bo = demo_buy_fill
         and sq = 1010 and bq = 1000 and fees = 2 and d = 10 and p = 8,
       THEN conjunct1]
    by (simp add: demo_completed_legs demo_buy_fill_def demo_sell_fill_def dec_values)
  have b: "net_pnl demo_active = Inr 0 \<and> net_pnl_pct demo_active = Inr 0"
    using net_pnl_completed
      [where s = demo_active, THEN conjunct2, THEN conjunct2, THEN conjunct2]
    by (simp add: demo_completed_legs)
  have l: "order (buy_order demo_completed)
       = Some \<lparr> executed_amount = 10, average_price = 100, cum_fee_quote = 1,
                is_filled = True \<rparr>"
     "order (sell_order demo_completed)
       = Some \<lparr> executed_amount = 10, average_price = 101, cum_fee_quote = 1,
                is_filled = True \<rparr>"
    by (simp_all add: demo_completed_legs demo_buy_fill_def demo_sell_fill_def)
  show ?thesis
    using a b x a2 a3 r(2) l demo_completed_legs(1,4) by blast
qed

theorem net_pnl_completed_counterexample:
  "arbitrage_status (run_operations demo_collab [Tick, OrderFailed ''buy-''] demo_filled)
     = COMPLETED
   \<and> net_pnl (run_operations demo_collab [Tick, OrderFailed ''buy-''] demo_filled)
       = Inl AttributeError
   \<and> net_pnl_pct (run_operations demo_collab [Tick, OrderFailed ''buy-''] demo_filled)
       = Inl AttributeError
   \<and> arbitrage_status demo_thirds = COMPLETED
   \<and> net_pnl demo_thirds = Inr 2
   \<and> net_pnl_pct demo_thirds
       = Inr (6666666666666666666666666667 / 10000000000000000000000000000)
   \<and> net_pnl_pct demo_thirds \<noteq> Inr (2 / 3)"
proof -
  have a: "net_pnl demo_thirds = Inr 2"
    by (simp add: net_pnl_def demo_thirds_legs dec_values_rounded)
  have b: "net_pnl_pct demo_thirds
       = Inr (6666666666666666666666666667 / 10000000000000000000000000000)"
    by (simp add: net_pnl_pct_def a demo_thirds_legs dec_values_rounded)
  have c: "net_pnl (run_operations demo_collab [Tick, OrderFailed ''buy-''] demo_filled)
       = Inl AttributeError"
    by (subst demo_refilled)
       (simp add: net_pnl_def demo_completed_legs demo_sell_fill_def dec_values)
  have e: "arbitrage_status (run_operations demo_collab [Tick, OrderFailed ''buy-''] demo_filled)
     = COMPLETED"
    by (subst demo_refilled) (simp add: demo_completed_legs)
  have d: "net_pnl_pct (run_operations demo_collab [Tick, OrderFailed ''buy-''] demo_filled)
       = Inl AttributeError"
    unfolding net_pnl_pct_def c e by simp
  have f: "net_pnl_pct demo_thirds \<noteq> Inr (2 / 3)"
    by (simp add: b)
  show ?thesis
    using a b c d e f demo_thirds_legs(1) by blast
qed

section \<open>The transaction cost\<close>

lemma cost_in_asset_amm:
  assumes "has_connector c ex" "amm_connector c ex"
    and "get_resulting_price_for_amount c ex tp b amt s = (Inr price, s1)"
    and "get_pair_rate c (asset @ ''-'' @ token (network_transaction_fee c ex (world s1)))
           (world s1) = (Inr rate, w')"
  shows "get_tx_cost_in_asset c ex tp b amt asset s
           = (dec_div (amount (network_transaction_fee c ex (world s1))) rate,
              s1\<lparr>world := w'\<rparr>)"
  using assms by (simp add: get_tx_cost_in_asset_def Let_def)

lemma cost_in_asset_order_book:
  assumes "has_connector c ex" "\<not> amm_connector c ex"
    and "get_resulting_price_for_amount c ex tp b amt s = (Inr price, s1)"
    and "get_fee c ex asset asset MARKET (if b then BUY else SELL) amt price False (world s1)
           = (Inr fee, w')"
  shows "get_tx_cost_in_asset c ex tp b amt asset s
           = (fst (fee_amount_in_token c fee tp price amt asset ex w'),
              s1\<lparr>world := snd (fee_amount_in_token c fee tp price amt asset ex w')\<rparr>)"
  using assms by (simp add: get_tx_cost_in_asset_def Let_def split: prod.splits)

lemma cost_pct_total:
  assumes sp: "split_hb_trading_pair c (trading_pair (buying_market s)) = Inr (base, quote)"
    and a: "get_tx_cost_in_asset c (exchange (buying_market s)) (trading_pair (buying_market s))
              True (order_amount s) base s = (Inr buy_fee, s1)"
    and b: "get_tx_cost_in_asset c (exchange (selling_market s)) (trading_pair (selling_market s))
              False (order_amount s) base s1 = (Inr sell_fee, s2)"
    and t: "dec_add buy_fee sell_fee = Inr t"
  shows "get_tx_cost_pct c s
           = (dec_div t (order_amount s), s2\<lparr>last_tx_cost := Some t\<rparr>)"
proof -
  have w1: "s1 = s\<lparr>world := world s1\<rparr>" using a by (rule cost_in_asset_world)
  have m1: "selling_market s1 = selling_market s" "order_amount s1 = order_amount s"
    by (subst w1, simp)+
  have w2: "s2 = s1\<lparr>world := world s2\<rparr>" using b by (rule cost_in_asset_world)
  have "order_amount s2 = order_amount s1" by (subst w2) simp
  then have o2: "order_amount s2 = order_amount s" using m1 by simp
  show ?thesis using sp a b t m1 o2 by (simp add: get_tx_cost_pct_def Let_def)
qed

lemma leg_costs_total:
  assumes "get_tx_cost_in_asset c (exchange (buying_market s)) (trading_pair (buying_market s))
              True (order_amount s) asset s = (Inr buy_fee, s1)"
    and "get_tx_cost_in_asset c (exchange (selling_market s)) (trading_pair (selling_market s))
              False (order_amount s) asset s1 = (Inr sell_fee, s2)"
  shows "leg_costs_in c asset s = dec_add buy_fee sell_fee"
  using assms by (simp add: leg_costs_in_def)

text \<open>
  Claim C7, as the code has it. The cost of one leg is, on an automated-market-maker
  venue, the decimal quotient of the amount of the network transaction fee and the rate
  that the rate oracle gives for the pair of the base asset and the fee's token, and, on
  any other venue, the amount that the connector's taker fee (a market order of the
  leg's side and the configured amount, not a maker) comes to in the base asset. Both
  legs are computed for the base asset of the buying pair; the evaluation records the
  decimal sum of the two, the cost of the legs in base-asset terms, as the last observed
  transaction cost and returns the decimal quotient of that total and the order amount.
\<close>

theorem get_tx_cost_pct_total:
  "(has_connector c ex \<and> amm_connector c ex
      \<and> get_resulting_price_for_amount c ex tp b amt s = (Inr price, s1)
      \<and> get_pair_rate c (asset @ ''-'' @ token (network_transaction_fee c ex (world s1)))
            (world s1) = (Inr rate, w') \<longrightarrow>
      fst (get_tx_cost_in_asset c ex tp b amt asset s)
        = dec_div (amount (network_transaction_fee c ex (world s1))) rate)
   \<and> (has_connector c ex \<and> \<not> amm_connector c ex
      \<and> get_resulting_price_for_amount c ex tp b amt s = (Inr price, s1)
      \<and> get_fee c ex asset asset MARKET (if b then BUY else SELL) amt price False (world s1)
            = (Inr fee, w'') \<longrightarrow>
      fst (get_tx_cost_in_asset c ex tp b amt asset s)
        = fst (fee_amount_in_token c fee tp price amt asset ex w''))
   \<and> (split_hb_trading_pair c (trading_pair (buying_market r)) = Inr (base, quote)
      \<and> get_tx_cost_in_asset c (exchange (buying_market r)) (trading_pair (buying_market r))
            True (order_amount r) base r = (Inr buy_fee, r1)
      \<and> get_tx_cost_in_asset c (exchange (selling_market r)) (trading_pair (selling_market r))
            False (order_amount r) base r1 = (Inr sell_fee, r2)
      \<and> dec_add buy_fee sell_fee = Inr t \<longrightarrow>
      leg_costs_in c base r = Inr t
      \<and> last_tx_cost (snd (get_tx_cost_pct c r)) = Some t
      \<and> fst (get_tx_cost_pct c r) = dec_div t (order_amount r))"
proof (intro conjI impI)
  assume "has_connector c ex \<and> amm_connector c ex
      \<and> get_resulting_price_for_amount c ex tp b amt s = (Inr price, s1)
      \<and> get_pair_rate c (asset @ ''-'' @ token (network_transaction_fee c ex (world s1)))
            (world s1) = (Inr rate, w')"
  then show "fst (get_tx_cost_in_asset c ex tp b amt asset s)
        = dec_div (amount (network_transaction_fee c ex (world s1))) rate"
    by (simp add: cost_in_asset_amm)
next
  assume "has_connector c ex \<and> \<not> amm_connector c ex
      \<and> get_resulting_price_for_amount c ex tp b amt s = (Inr price, s1)
      \<and> get_fee c ex asset asset MARKET (if b then BUY else SELL) amt price False (world s1)
            = (Inr fee, w'')"
  then show "fst (get_tx_cost_in_asset c ex tp b amt asset s)
        = fst (fee_amount_in_token c fee tp price amt asset ex w'')"
    using cost_in_asset_order_book [of c ex tp b amt s price s1 asset fee w''] by simp
next
  assume h: "split_hb_trading_pair c (trading_pair (buying_market r)) = Inr (base, quote)
      \<and> get_tx_cost_in_asset c (exchange (buying_market r)) (trading_pair (buying_market r))
            True (order_amount r) base r = (Inr buy_fee, r1)
      \<and> get_tx_cost_in_asset c (exchange (selling_market r)) (trading_pair (selling_market r))
            False (order_amount r) base r1 = (Inr sell_fee, r2)
      \<and> dec_add buy_fee sell_fee = Inr t"
  have tot: "get_tx_cost_pct c r
           = (dec_div t (order_amount r), r2\<lparr>last_tx_cost := Some t\<rparr>)"
    using h cost_pct_total [of c r base quote buy_fee r1 sell_fee r2 t] by blast
  show "leg_costs_in c base r = Inr t"
    using h leg_costs_total [of c r base buy_fee r1 sell_fee r2] by simp
  show "last_tx_cost (snd (get_tx_cost_pct c r)) = Some t"
    by (simp add: tot)
  show "fst (get_tx_cost_pct c r) = dec_div t (order_amount r)"
    by (simp add: tot)
qed

lemma demo_amm_facts:
  "has_connector demo_collab ''uniswap''" "amm_connector demo_collab ''uniswap''"
  "has_connector demo_collab ''binance''" "\<not> amm_connector demo_collab ''binance''"
  "get_resulting_price_for_amount demo_collab ''uniswap'' ''WBTC-USDT'' True 10
     (init demo_amm_config 0) = (Inr 100, init demo_amm_config 0)"
  "get_resulting_price_for_amount demo_collab ''binance'' ''WBTC-USDT'' False 10
     (init demo_amm_config 0) = (Inr 101, init demo_amm_config 0)"
  "world (init demo_amm_config (0::nat)) = 0"
  "network_transaction_fee demo_collab ''uniswap'' 0 = \<lparr> token = ''ETH'', amount = 1 / 100 \<rparr>"
  "get_pair_rate demo_collab ''WBTC-ETH'' 0 = (Inr 20, 0)"
  "get_fee demo_collab ''binance'' ''WBTC'' ''WBTC'' MARKET SELL 10 101 False 0
     = (Inr (1 / 40), 0)"
  "fee_amount_in_token demo_collab (1 / 40) ''WBTC-USDT'' 101 10 ''WBTC'' ''binance'' 0
     = (Inr (1 / 40), 0)"
  by (simp_all add: demo_collab_def get_resulting_price_for_amount_def init_def)

lemma demo_amm_run:
  "split_hb_trading_pair demo_collab (trading_pair (buying_market (init demo_amm_config (0::nat))))
     = Inr (''WBTC'', ''USDT'')"
  "exchange (buying_market (init demo_amm_config (0::nat))) = ''uniswap''"
  "trading_pair (buying_market (init demo_amm_config (0::nat))) = ''WBTC-USDT''"
  "exchange (selling_market (init demo_amm_config (0::nat))) = ''binance''"
  "trading_pair (selling_market (init demo_amm_config (0::nat))) = ''WBTC-USDT''"
  "order_amount (init demo_amm_config (0::nat)) = 10"
  "split_hb_trading_pair demo_collab ''WBTC-USDT'' = Inr (''WBTC'', ''USDT'')"
  by (simp_all add: demo_collab_def init_def demo_amm_config_def)

lemma demo_amm_legs:
  "get_tx_cost_in_asset demo_collab ''uniswap'' ''WBTC-USDT'' True 10 ''WBTC''
     (init demo_amm_config 0) = (Inr (1 / 2000), init demo_amm_config 0)"
  "get_tx_cost_in_asset demo_collab ''binance'' ''WBTC-USDT'' False 10 ''WBTC''
     (init demo_amm_config 0) = (Inr (1 / 40), init demo_amm_config 0)"
  by (simp_all add: get_tx_cost_in_asset_def demo_amm_facts Let_def dec_values)

theorem get_tx_cost_pct_total_witness:
  "has_connector demo_collab ''uniswap'' \<and> amm_connector demo_collab ''uniswap''
   \<and> fst (get_tx_cost_in_asset demo_collab ''uniswap'' ''WBTC-USDT'' True 10 ''WBTC''
            (init demo_amm_config 0)) = Inr (1 / 2000)
   \<and> has_connector demo_collab ''binance'' \<and> \<not> amm_connector demo_collab ''binance''
   \<and> fst (get_tx_cost_in_asset demo_collab ''binance'' ''WBTC-USDT'' False 10 ''WBTC''
            (init demo_amm_config 0)) = Inr (1 / 40)
   \<and> leg_costs_in demo_collab ''WBTC'' (init demo_amm_config 0) = Inr (51 / 2000)
   \<and> last_tx_cost (snd (get_tx_cost_pct demo_collab (init demo_amm_config 0)))
        = Some (51 / 2000)
   \<and> fst (get_tx_cost_pct demo_collab (init demo_amm_config 0)) = Inr (51 / 20000)"
proof -
  let ?r = "init demo_amm_config (0::nat)"
  have amm: "fst (get_tx_cost_in_asset demo_collab ''uniswap'' ''WBTC-USDT'' True 10 ''WBTC'' ?r)
           = Inr (1 / 2000)"
    using get_tx_cost_pct_total
      [where c = demo_collab and ex = "''uniswap''" and tp = "''WBTC-USDT''" and b = True
         and amt = 10 and s = ?r and price = 100 and ?s1.0 = ?r and asset = "''WBTC''"
         and rate = 20 and w' = 0, THEN conjunct1]
    by (simp add: demo_amm_facts dec_values)
  have ob: "fst (get_tx_cost_in_asset demo_collab ''binance'' ''WBTC-USDT'' False 10 ''WBTC'' ?r)
           = Inr (1 / 40)"
    using get_tx_cost_pct_total
      [where c = demo_collab and ex = "''binance''" and tp = "''WBTC-USDT''" and b = False
         and amt = 10 and s = ?r and price = 101 and ?s1.0 = ?r and asset = "''WBTC''"
         and fee = "1 / 40" and w'' = 0, THEN conjunct2, THEN conjunct1]
    by (simp add: demo_amm_facts)
  have tot: "leg_costs_in demo_collab ''WBTC'' ?r = Inr (51 / 2000)
     \<and> last_tx_cost (snd (get_tx_cost_pct demo_collab ?r)) = Some (51 / 2000)
     \<and> fst (get_tx_cost_pct demo_collab ?r) = Inr (51 / 20000)"
    using get_tx_cost_pct_total
      [where c = demo_collab and r = ?r and base = "''WBTC''" and quote = "''USDT''"
         and buy_fee = "1 / 2000" and ?r1.0 = ?r and sell_fee = "1 / 40" and ?r2.0 = ?r
         and t = "51 / 2000", THEN conjunct2, THEN conjunct2]
    by (simp add: demo_amm_run demo_amm_legs dec_values)
  show ?thesis using amm ob tot by (simp add: demo_amm_facts)
qed

lemma demo_start_run:
  "exchange (buying_market demo_start) = ''binance''"
  "trading_pair (buying_market demo_start) = ''ETH-USDT''"
  "exchange (selling_market demo_start) = ''kucoin''"
  "trading_pair (selling_market demo_start) = ''ETH-USDT''"
  "order_amount demo_start = 10"
  "split_hb_trading_pair demo_collab ''ETH-USDT'' = Inr (''ETH'', ''USDT'')"
  by (simp_all add: demo_collab_def demo_start_def init_def demo_config_def)

lemma demo_start_legs:
  "get_tx_cost_in_asset demo_collab ''binance'' ''ETH-USDT'' True 10 ''ETH'' demo_start
     = (Inr (1 / 40), demo_start)"
  "get_tx_cost_in_asset demo_collab ''kucoin'' ''ETH-USDT'' False 10 ''ETH'' demo_start
     = (Inr (1 / 40), demo_start)"
  "get_tx_cost_in_asset demo_collab ''binance'' ''ETH-USDT'' True 10 ''USDT'' demo_start
     = (Inr (5 / 2), demo_start)"
  "get_tx_cost_in_asset demo_collab ''kucoin'' ''ETH-USDT'' False 10 ''USDT'' demo_start
     = (Inr (101 / 40), demo_start)"
  by (simp_all add: get_tx_cost_in_asset_def get_resulting_price_for_amount_def
        demo_collab_def demo_start_def init_def demo_config_def)

theorem get_tx_cost_pct_total_counterexample:
  "split_hb_trading_pair demo_collab (trading_pair (buying_market demo_start))
     = Inr (''ETH'', ''USDT'')
   \<and> last_tx_cost (snd (get_tx_cost_pct demo_collab demo_start)) = Some (1 / 20)
   \<and> leg_costs_in demo_collab ''ETH'' demo_start = Inr (1 / 20)
   \<and> leg_costs_in demo_collab ''USDT'' demo_start = Inr (201 / 40)
   \<and> fst (get_tx_cost_in_asset demo_rate3_collab
            ''uniswap'' ''WBTC-USDT'' True 10 ''WBTC'' (init demo_amm_config 0))
       = Inr (3333333333333333333333333333 / 1000000000000000000000000000000)
   \<and> (3333333333333333333333333333 / 1000000000000000000000000000000 :: rat)
       \<noteq> (1 / 100) / 3"
proof -
  have a: "get_tx_cost_pct demo_collab demo_start
       = (Inr (1 / 200), demo_start\<lparr>last_tx_cost := Some (1 / 20)\<rparr>)"
    by (simp add: get_tx_cost_pct_def demo_start_run demo_start_legs dec_values Let_def)
  have b: "leg_costs_in demo_collab ''ETH'' demo_start = Inr (1 / 20)"
    by (simp add: leg_costs_in_def demo_start_run demo_start_legs dec_values)
  have c: "leg_costs_in demo_collab ''USDT'' demo_start = Inr (201 / 40)"
    by (simp add: leg_costs_in_def demo_start_run demo_start_legs dec_values)
  have d: "fst (get_tx_cost_in_asset demo_rate3_collab
            ''uniswap'' ''WBTC-USDT'' True 10 ''WBTC'' (init demo_amm_config 0))
       = Inr (3333333333333333333333333333 / 1000000000000000000000000000000)"
    by (simp add: get_tx_cost_in_asset_def get_resulting_price_for_amount_def
          demo_rate3_collab_def demo_collab_def init_def dec_values_rounded Let_def)
  show ?thesis using a b c d by (simp add: demo_start_run)
qed

end
